theory Spec2Isabelle
  imports Complex_Main
begin

section \<open>Python values and exceptions\<close>

text \<open>
  The two services are Python (FastAPI, SQLAlchemy, httpx).  Python ints are HOL ints.
  Every exception the modelled code can raise is a value of \<open>py_error\<close>; a function that can
  raise returns \<open>py_error + 'a\<close>, with \<open>Inl\<close> for the raised exception.
\<close>

datatype py_error =
    ZeroDivisionError
  | ValueError
  | TypeError
  | AttributeError
  | KeyError
  | IndexError
  | ValidationError
  | ConnectError
  | JSONDecodeError
  | SQLAlchemyError
  | WebSocketError
  | HTTPException int string

section \<open>Double-precision arithmetic\<close>

text \<open>
  A Python float is an IEEE 754 double.  A double is read as the real number it stands
  for, and each arithmetic operation returns the exact result rounded to the nearest
  number with a 53-bit significand, ties to the even significand.  The exponent range is
  not bounded: overflow, subnormal numbers, infinities and NaN are outside the model.
\<close>

definition round_half_even :: "real \<Rightarrow> int" where
  "round_half_even r =
     (let f = \<lfloor>r\<rfloor>; d = r - of_int f
      in if d < 1 / 2 then f
         else if 1 / 2 < d then f + 1
         else if even f then f else f + 1)"

definition round_double :: "real \<Rightarrow> real" where
  "round_double x =
     (if x = 0 then 0
      else (let p = 2 powr of_int (\<lfloor>log 2 \<bar>x\<bar>\<rfloor> - 52)
            in sgn x * (of_int (round_half_even (\<bar>x\<bar> / p)) * p)))"

text \<open>A real number that is a double: rounding leaves it as it is.\<close>

definition is_double :: "real \<Rightarrow> bool" where
  "is_double x = (round_double x = x)"

text \<open>The float operators \<open>+\<close>, \<open>-\<close>, \<open>*\<close> and \<open>/\<close> (the latter for a non-zero divisor).\<close>

definition fadd :: "real \<Rightarrow> real \<Rightarrow> real" where
  "fadd x y = round_double (x + y)"

definition fsub :: "real \<Rightarrow> real \<Rightarrow> real" where
  "fsub x y = round_double (x - y)"

definition fmul :: "real \<Rightarrow> real \<Rightarrow> real" where
  "fmul x y = round_double (x * y)"

definition fdiv :: "real \<Rightarrow> real \<Rightarrow> real" where
  "fdiv x y = round_double (x / y)"

text \<open>
  The functions of the C library that \<open>math.sin\<close>, \<open>math.cos\<close>, \<open>math.asin\<close> and the
  float power \<open>x ** y\<close> call.  Their results are those of the platform, within an error
  the platform states, so they are taken as given: a \<open>libm\<close> is one platform's four
  functions on doubles.
\<close>

record libm =
  lm_sin :: "real \<Rightarrow> real"
  lm_cos :: "real \<Rightarrow> real"
  lm_asin :: "real \<Rightarrow> real"
  lm_pow :: "real \<Rightarrow> real \<Rightarrow> real"

section \<open>Geo kernel (delivery service)\<close>






definition math_asin :: "libm \<Rightarrow> real \<Rightarrow> py_error + real" where
  "math_asin L x = (if x < - 1 \<or> 1 < x then Inl ValueError else Inr (lm_asin L x))"


text \<open>Python's \<open>%\<close> on floats: the result has the sign of the divisor.\<close>

definition py_mod :: "real \<Rightarrow> real \<Rightarrow> py_error + real" where
  "py_mod x y = (if y = 0 then Inl ZeroDivisionError else Inr (x - y * of_int \<lfloor>x / y\<rfloor>))"

text \<open>Python's \<open>/\<close> on two ints (true division): the exact quotient, rounded once.\<close>

definition py_truediv :: "int \<Rightarrow> int \<Rightarrow> py_error + real" where
  "py_truediv a b =
     (if b = 0 then Inl ZeroDivisionError else Inr (round_double (of_int a / of_int b)))"

text \<open>Python's \<open>int(x)\<close> on a float truncates towards zero.\<close>

definition py_int :: "real \<Rightarrow> int" where
  "py_int x = (if 0 \<le> x then \<lfloor>x\<rfloor> else \<lceil>x\<rceil>)"



text \<open>
  A waypoint is the dict \<open>{"sequence", "latitude", "longitude", "estimated_time"}\<close> that
  \<open>generate_waypoints\<close> appends.
\<close>

record waypoint =
  wp_sequence :: int
  wp_latitude :: real
  wp_longitude :: real
  wp_estimated_time :: int

text \<open>
  The body of the loop of \<open>generate_waypoints\<close> for one \<open>i\<close>: both divisions
  \<open>i / num_points\<close> raise \<open>ZeroDivisionError\<close> when \<open>num_points\<close> is 0.
\<close>

definition make_waypoint :: "real \<Rightarrow> real \<Rightarrow> real \<Rightarrow> real \<Rightarrow> int \<Rightarrow> int \<Rightarrow> py_error + waypoint" where
  "make_waypoint start_lat start_lng end_lat end_lng num_points i =
     (case py_truediv i num_points of
        Inl e \<Rightarrow> Inl e
      | Inr ratio \<Rightarrow>
          (let lat = fadd start_lat (fmul (fsub end_lat start_lat) ratio);
               lng = fadd start_lng (fmul (fsub end_lng start_lng) ratio)
           in case py_truediv i num_points of
                Inl e \<Rightarrow> Inl e
              | Inr q \<Rightarrow> Inr \<lparr>wp_sequence = i, wp_latitude = lat, wp_longitude = lng,
                              wp_estimated_time = py_int (fmul q 60)\<rparr>))"

text \<open>
  The loop \<open>for i in range(num_points + 1)\<close>, over the list of the values of \<open>i\<close> still to
  come, with the list \<open>waypoints\<close> built so far.  An exception leaves the loop at once.
\<close>

fun waypoints_loop ::
  "real \<Rightarrow> real \<Rightarrow> real \<Rightarrow> real \<Rightarrow> int \<Rightarrow> int list \<Rightarrow> waypoint list \<Rightarrow> py_error + waypoint list" where
  "waypoints_loop slat slng elat elng n [] waypoints = Inr waypoints"
| "waypoints_loop slat slng elat elng n (i # is) waypoints =
     (case make_waypoint slat slng elat elng n i of
        Inl e \<Rightarrow> Inl e
      | Inr w \<Rightarrow> waypoints_loop slat slng elat elng n is (waypoints @ [w]))"

text \<open>\<open>range(k)\<close> for a Python int \<open>k\<close>: empty when \<open>k \<le> 0\<close>.\<close>

definition py_range :: "int \<Rightarrow> int list" where
  "py_range k = map int [0 ..< nat k]"

definition generate_waypoints :: "real \<Rightarrow> real \<Rightarrow> real \<Rightarrow> real \<Rightarrow> int \<Rightarrow> py_error + waypoint list" where
  "generate_waypoints start_lat start_lng end_lat end_lng num_points =
     waypoints_loop start_lat start_lng end_lat end_lng num_points (py_range (num_points + 1)) []"

text \<open>
  Waypoint \<open>i\<close> of \<open>num_points\<close> intervals, as the specification words it: the linear
  interpolation of both coordinates at the ratio \<open>i / num_points\<close> and
  \<open>floor((i / num_points) * 60)\<close> seconds, each operation being the one on doubles.  The
  theorems below compare \<open>generate_waypoints\<close> with it.
\<close>

definition interpolate :: "real \<Rightarrow> real \<Rightarrow> real \<Rightarrow> real \<Rightarrow> int \<Rightarrow> int \<Rightarrow> waypoint" where
  "interpolate slat slng elat elng n i =
     \<lparr>wp_sequence = i,
      wp_latitude = fadd slat (fmul (fsub elat slat) (round_double (of_int i / of_int n))),
      wp_longitude = fadd slng (fmul (fsub elng slng) (round_double (of_int i / of_int n))),
      wp_estimated_time = \<lfloor>fmul (round_double (of_int i / of_int n)) 60\<rfloor>\<rparr>"

section \<open>JSON values, HTTP collaborators\<close>

text \<open>
  A decoded JSON document, as \<open>response.json()\<close> returns it.  \<open>JNull\<close> is Python's
  \<open>None\<close>; a \<open>JObj\<close> holds the items of a dict (keys distinct).
\<close>

datatype json =
    JNull
  | JBool bool
  | JInt int
  | JFloat real
  | JStr string
  | JArr "json list"
  | JObj "(string \<times> json) list"

text \<open>Python's truth value of a decoded document (\<open>if not x\<close>).\<close>

fun truthy :: "json \<Rightarrow> bool" where
  "truthy JNull = False"
| "truthy (JBool b) = b"
| "truthy (JInt i) = (i \<noteq> 0)"
| "truthy (JFloat r) = (r \<noteq> 0)"
| "truthy (JStr s) = (s \<noteq> [])"
| "truthy (JArr xs) = (xs \<noteq> [])"
| "truthy (JObj kvs) = (kvs \<noteq> [])"

text \<open>\<open>x.get(key, default)\<close>: only a dict has the method.\<close>

fun dict_get :: "json \<Rightarrow> string \<Rightarrow> json \<Rightarrow> py_error + json" where
  "dict_get (JObj kvs) key dflt = Inr (case map_of kvs key of None \<Rightarrow> dflt | Some v \<Rightarrow> v)"
| "dict_get j key dflt = Inl AttributeError"

text \<open>\<open>x[key]\<close> on a decoded document, for a string key.\<close>

fun dict_index :: "json \<Rightarrow> string \<Rightarrow> py_error + json" where
  "dict_index (JObj kvs) key = (case map_of kvs key of None \<Rightarrow> Inl KeyError | Some v \<Rightarrow> Inr v)"
| "dict_index j key = Inl TypeError"

text \<open>
  The number a decoded value stands for in float arithmetic (an int up to \<open>2 ^ 53\<close> in
  magnitude is a double); the operators \<open>-\<close>, \<open>*\<close> and \<open>+\<close> of \<open>generate_waypoints\<close> raise
  \<open>TypeError\<close> on anything else.
\<close>

fun as_number :: "json \<Rightarrow> py_error + real" where
  "as_number (JInt i) = Inr (of_int i)"
| "as_number (JFloat r) = Inr r"
| "as_number (JBool b) = Inr (if b then 1 else 0)"
| "as_number j = Inl TypeError"

text \<open>
  An HTTP response of a collaborator: its status code and its body decoded by
  \<open>response.json()\<close>, \<open>None\<close> when decoding raises.
\<close>

record response =
  status_code :: int
  body :: "json option"

text \<open>
  The collaborators.  \<open>user_service h\<close> answers \<open>GET /verify-token\<close> sent with the
  Authorization header \<open>h\<close>; \<open>order_service order_id h\<close> answers
  \<open>GET /orders/{order_id}\<close> sent with the optional Authorization header \<open>h\<close>.  \<open>Inl\<close> is
  an exception raised by the HTTP client (connection refused, timeout).
\<close>

record services =
  user_service :: "string \<Rightarrow> py_error + response"
  order_service :: "int \<Rightarrow> string option \<Rightarrow> py_error + response"

text \<open>\<open>s.split(" ")\<close> and \<open>s.startswith(p)\<close>.\<close>

fun split_on :: "char \<Rightarrow> string \<Rightarrow> string list" where
  "split_on c [] = [[]]"
| "split_on c (x # xs) =
     (if x = c then [] # split_on c xs
      else (case split_on c xs of
              [] \<Rightarrow> [[x]]
            | w # ws \<Rightarrow> (x # w) # ws))"

definition startswith :: "string \<Rightarrow> string \<Rightarrow> bool" where
  "startswith s p = (take (length p) s = p)"

text \<open>
  \<open>verify_token\<close>: 401 without a header of the form \<open>Bearer ...\<close>; otherwise the user
  service's document when it answers 200, and \<open>None\<close> when it answers anything else or
  the call or the decoding raises (the bare \<open>except\<close>).
\<close>

definition verify_token :: "services \<Rightarrow> string option \<Rightarrow> py_error + json" where
  "verify_token svc authorization =
     (case authorization of
        None \<Rightarrow> Inl (HTTPException 401 ''Not authenticated'')
      | Some a \<Rightarrow>
          if a = [] \<or> \<not> startswith a ''Bearer '' then Inl (HTTPException 401 ''Not authenticated'')
          else (case split_on CHR '' '' a of
                  _ # token # _ \<Rightarrow>
                    (case user_service svc (''Bearer '' @ token) of
                       Inl e \<Rightarrow> Inr JNull
                     | Inr res \<Rightarrow>
                         if status_code res = 200
                         then (case body res of None \<Rightarrow> Inr JNull | Some j \<Rightarrow> Inr j)
                         else Inr JNull)
                | _ \<Rightarrow> Inl IndexError))"

section \<open>The store and the connection manager (delivery service)\<close>

text \<open>
  Rows of the tables \<open>delivery_tracking\<close> and \<open>delivery_routes\<close>, with the values the code
  assigns to the attributes.  The columns \<open>id\<close>, \<open>timestamp\<close> and \<open>created_at\<close>, which the
  database fills in, are left out; so is the \<open>timestamp\<close> entry of the broadcast messages.
\<close>

record DeliveryTracking =
  dt_order_id :: int
  dt_drone_id :: json
  dt_latitude :: real
  dt_longitude :: real
  dt_altitude :: real
  dt_speed :: real
  dt_battery_level :: json
  dt_status :: "string option"

record DeliveryRoute =
  dr_order_id :: int
  dr_drone_id :: json
  dr_waypoint_sequence :: int
  dr_latitude :: real
  dr_longitude :: real
  dr_estimated_time :: int

datatype row = RouteRow DeliveryRoute | TrackingRow DeliveryTracking

text \<open>
  The \<open>position_update\<close> dict sent to the subscribers; \<open>waypoint\<close> and \<open>total_waypoints\<close>
  are present only in the simulator's messages.
\<close>

record message =
  m_type :: string
  m_order_id :: int
  m_drone_id :: json
  m_latitude :: real
  m_longitude :: real
  m_altitude :: real
  m_speed :: real
  m_battery_level :: json
  m_status :: "string option"
  m_waypoint :: "int option"
  m_total_waypoints :: "int option"

type_synonym websocket = nat

text \<open>
  The state the delivery service works on:
  \<^item> the committed rows of the two tables;
  \<^item> \<open>commit_outcomes\<close>: what the database will answer to the coming calls of
    \<open>db.commit()\<close>, one entry a call (\<open>False\<close>: the commit raises and nothing is written);
    once the list is used up every commit succeeds;
  \<^item> \<open>active_connections\<close>: the dict of the \<open>ConnectionManager\<close>;
  \<^item> \<open>closed\<close>: the websockets whose \<open>send_json\<close> raises;
  \<^item> \<open>sent\<close>: the messages delivered so far, oldest first;
  \<^item> \<open>published\<close>: the trace of the calls of \<open>broadcast\<close>, oldest first (a record of the
    run, not a field of the program).
\<close>

record world =
  db_routes :: "DeliveryRoute list"
  db_tracking :: "DeliveryTracking list"
  commit_outcomes :: "bool list"
  active_connections :: "int \<rightharpoonup> websocket list"
  closed :: "websocket set"
  sent :: "(websocket \<times> message) list"
  published :: "(int \<times> message) list"

text \<open>
  \<open>db.add\<close> appends a row to the session's pending rows (a list local to the request);
  \<open>db.commit()\<close> writes all of them in one transaction, or raises and writes none.
\<close>

fun insert_row :: "row \<Rightarrow> world \<Rightarrow> world" where
  "insert_row (RouteRow r) w = w\<lparr>db_routes := db_routes w @ [r]\<rparr>"
| "insert_row (TrackingRow t) w = w\<lparr>db_tracking := db_tracking w @ [t]\<rparr>"

fun flush :: "row list \<Rightarrow> world \<Rightarrow> world" where
  "flush [] w = w"
| "flush (r # rs) w = flush rs (insert_row r w)"

definition db_commit :: "row list \<Rightarrow> world \<Rightarrow> (py_error + unit) \<times> world" where
  "db_commit pending w =
     (case commit_outcomes w of
        [] \<Rightarrow> (Inr (), flush pending w)
      | ok # rest \<Rightarrow>
          if ok then (Inr (), flush pending (w\<lparr>commit_outcomes := rest\<rparr>))
          else (Inl SQLAlchemyError, w\<lparr>commit_outcomes := rest\<rparr>))"

text \<open>\<open>ConnectionManager.connect\<close>, after the websocket is accepted.\<close>

definition connect :: "websocket \<Rightarrow> int \<Rightarrow> world \<Rightarrow> world" where
  "connect websocket order_id w =
     (let conns = (case active_connections w order_id of None \<Rightarrow> [] | Some cs \<Rightarrow> cs)
      in w\<lparr>active_connections := (active_connections w)(order_id \<mapsto> conns @ [websocket])\<rparr>)"

text \<open>\<open>list.remove(x)\<close> raises \<open>ValueError\<close> when \<open>x\<close> is not in the list.\<close>

definition list_remove :: "'a list \<Rightarrow> 'a \<Rightarrow> py_error + 'a list" where
  "list_remove xs x = (if x \<in> set xs then Inr (remove1 x xs) else Inl ValueError)"

definition disconnect :: "websocket \<Rightarrow> int \<Rightarrow> world \<Rightarrow> py_error + world" where
  "disconnect websocket order_id w =
     (case active_connections w order_id of
        None \<Rightarrow> Inr w
      | Some conns \<Rightarrow>
          (case list_remove conns websocket of
             Inl e \<Rightarrow> Inl e
           | Inr conns' \<Rightarrow> Inr (w\<lparr>active_connections := (active_connections w)(order_id \<mapsto> conns')\<rparr>)))"

definition send_json :: "websocket \<Rightarrow> message \<Rightarrow> world \<Rightarrow> (py_error + unit) \<times> world" where
  "send_json connection msg w =
     (if connection \<in> closed w then (Inl WebSocketError, w)
      else (Inr (), w\<lparr>sent := sent w @ [(connection, msg)]\<rparr>))"

text \<open>
  The loop of \<open>broadcast\<close>: \<open>try: await connection.send_json(message)\<close>,
  \<open>except: pass\<close>.
\<close>

fun broadcast_loop :: "websocket list \<Rightarrow> message \<Rightarrow> world \<Rightarrow> (py_error + unit) \<times> world" where
  "broadcast_loop [] msg w = (Inr (), w)"
| "broadcast_loop (connection # rest) msg w =
     (case send_json connection msg w of
        (Inl e, w') \<Rightarrow> broadcast_loop rest msg w'
      | (Inr u, w') \<Rightarrow> broadcast_loop rest msg w')"

definition broadcast :: "int \<Rightarrow> message \<Rightarrow> world \<Rightarrow> (py_error + unit) \<times> world" where
  "broadcast order_id msg w =
     (let w0 = w\<lparr>published := published w @ [(order_id, msg)]\<rparr>
      in case active_connections w0 order_id of
           None \<Rightarrow> (Inr (), w0)
         | Some conns \<Rightarrow> broadcast_loop conns msg w0)"

section \<open>Endpoints of the delivery service\<close>

text \<open>
  The \<open>try\<close> block of \<open>start_tracking\<close> that fetches the order: the call may raise, a
  status other than 200 raises \<open>HTTPException(404)\<close>, the decoding may raise.
\<close>

definition start_tracking_try :: "services \<Rightarrow> int \<Rightarrow> string option \<Rightarrow> py_error + json" where
  "start_tracking_try svc order_id authorization =
     (case order_service svc order_id authorization of
        Inl e \<Rightarrow> Inl e
      | Inr order_res \<Rightarrow>
          if status_code order_res \<noteq> 200 then Inl (HTTPException 404 ''Order not found'')
          else (case body order_res of
                  None \<Rightarrow> Inl JSONDecodeError
                | Some order \<Rightarrow> Inr order))"

text \<open>The block with its handler: \<open>except: raise HTTPException(503, ...)\<close>.\<close>

definition start_tracking_fetch :: "services \<Rightarrow> int \<Rightarrow> string option \<Rightarrow> py_error + json" where
  "start_tracking_fetch svc order_id authorization =
     (case start_tracking_try svc order_id authorization of
        Inl e \<Rightarrow> Inl (HTTPException 503 ''Order service unavailable'')
      | Inr order \<Rightarrow> Inr order)"

text \<open>The dict returned by \<open>start_tracking\<close>.\<close>

record tracking_started =
  ts_message :: string
  ts_order_id :: int
  ts_drone_id :: json
  ts_total_waypoints :: nat

text \<open>The \<open>DeliveryRoute\<close> row built from one waypoint.\<close>

definition delivery_route :: "int \<Rightarrow> json \<Rightarrow> waypoint \<Rightarrow> DeliveryRoute" where
  "delivery_route order_id drone_id wp =
     \<lparr>dr_order_id = order_id, dr_drone_id = drone_id,
      dr_waypoint_sequence = wp_sequence wp,
      dr_latitude = wp_latitude wp, dr_longitude = wp_longitude wp,
      dr_estimated_time = wp_estimated_time wp\<rparr>"

text \<open>
  The four coordinates read from the order, \<open>order.get(key, default)\<close>, as the numbers
  \<open>generate_waypoints\<close> computes with; a value that is no number makes its first
  subtraction raise \<open>TypeError\<close>.  A default is a float literal: the double nearest to
  the decimal written.
\<close>

definition order_number :: "json \<Rightarrow> string \<Rightarrow> real \<Rightarrow> py_error + real" where
  "order_number order key dflt =
     (case dict_get order key (JFloat dflt) of
        Inl e \<Rightarrow> Inl e
      | Inr v \<Rightarrow> as_number v)"

definition order_coordinates :: "json \<Rightarrow> py_error + (real \<times> real \<times> real \<times> real)" where
  "order_coordinates order =
     (case order_number order ''restaurant_lat'' (round_double 10.762622) of
        Inl e \<Rightarrow> Inl e
      | Inr start_lat \<Rightarrow>
          (case order_number order ''restaurant_lng'' (round_double 106.660172) of
             Inl e \<Rightarrow> Inl e
           | Inr start_lng \<Rightarrow>
               (case order_number order ''delivery_lat'' (round_double 10.775845) of
                  Inl e \<Rightarrow> Inl e
                | Inr end_lat \<Rightarrow>
                    (case order_number order ''delivery_lng'' (round_double 106.701758) of
                       Inl e \<Rightarrow> Inl e
                     | Inr end_lng \<Rightarrow> Inr (start_lat, start_lng, end_lat, end_lng)))))"

text \<open>
  The second half of the persistence: the initial tracking point, added and committed
  after the route rows have been committed.
\<close>

definition start_tracking_initial ::
  "int \<Rightarrow> json \<Rightarrow> json \<Rightarrow> real \<Rightarrow> real \<Rightarrow> nat \<Rightarrow> world \<Rightarrow> (py_error + tracking_started) \<times> world" where
  "start_tracking_initial order_id order drone_id start_lat start_lng total_waypoints w =
     (case dict_get order ''battery_level'' (JInt 100) of
        Inl e \<Rightarrow> (Inl e, w)
      | Inr battery \<Rightarrow>
          (case db_commit [TrackingRow
                  \<lparr>dt_order_id = order_id, dt_drone_id = drone_id,
                   dt_latitude = start_lat, dt_longitude = start_lng,
                   dt_altitude = 0, dt_speed = 0,
                   dt_battery_level = battery, dt_status = Some ''taking_off''\<rparr>] w of
             (Inl e, w') \<Rightarrow> (Inl e, w')
           | (Inr u, w') \<Rightarrow>
               (Inr \<lparr>ts_message = ''Tracking started'', ts_order_id = order_id,
                     ts_drone_id = drone_id, ts_total_waypoints = total_waypoints\<rparr>, w')))"

text \<open>
  \<open>start_tracking\<close> from the point where the order is known to have a drone: the
  waypoints, the first commit (all route rows), then the initial tracking point.
\<close>

definition start_tracking_persist :: "int \<Rightarrow> json \<Rightarrow> world \<Rightarrow> (py_error + tracking_started) \<times> world" where
  "start_tracking_persist order_id order w =
     (case order_coordinates order of
        Inl e \<Rightarrow> (Inl e, w)
      | Inr (start_lat, start_lng, end_lat, end_lng) \<Rightarrow>
          (case generate_waypoints start_lat start_lng end_lat end_lng 15 of
             Inl e \<Rightarrow> (Inl e, w)
           | Inr waypoints \<Rightarrow>
               (case dict_index order ''drone_id'' of
                  Inl e \<Rightarrow> (Inl e, w)
                | Inr drone_id \<Rightarrow>
                    (case db_commit (map (\<lambda>wp. RouteRow (delivery_route order_id drone_id wp)) waypoints) w of
                       (Inl e, w1) \<Rightarrow> (Inl e, w1)
                     | (Inr u, w1) \<Rightarrow>
                         start_tracking_initial order_id order drone_id start_lat start_lng
                           (length waypoints) w1))))"

definition start_tracking ::
  "services \<Rightarrow> int \<Rightarrow> string option \<Rightarrow> world \<Rightarrow> (py_error + tracking_started) \<times> world" where
  "start_tracking svc order_id authorization w =
     (case verify_token svc authorization of
        Inl e \<Rightarrow> (Inl e, w)
      | Inr user \<Rightarrow>
          if \<not> truthy user then (Inl (HTTPException 401 ''Invalid token''), w)
          else (case start_tracking_fetch svc order_id authorization of
                  Inl e \<Rightarrow> (Inl e, w)
                | Inr order \<Rightarrow>
                    (case dict_get order ''drone_id'' JNull of
                       Inl e \<Rightarrow> (Inl e, w)
                     | Inr d \<Rightarrow>
                         if \<not> truthy d
                         then (Inl (HTTPException 400 ''No drone assigned to this order''), w)
                         else start_tracking_persist order_id order w)))"

text \<open>
  The \<open>try\<close> block of \<open>update_position\<close> (the order is fetched without an Authorization
  header, and \<open>order.get("drone_id")\<close> is inside the block), and the block with its
  handler.
\<close>

definition update_position_try :: "services \<Rightarrow> int \<Rightarrow> py_error + json" where
  "update_position_try svc order_id =
     (case order_service svc order_id None of
        Inl e \<Rightarrow> Inl e
      | Inr order_res \<Rightarrow>
          if status_code order_res \<noteq> 200 then Inl (HTTPException 404 ''Order not found'')
          else (case body order_res of
                  None \<Rightarrow> Inl JSONDecodeError
                | Some order \<Rightarrow> dict_get order ''drone_id'' JNull))"

definition update_position_fetch :: "services \<Rightarrow> int \<Rightarrow> py_error + json" where
  "update_position_fetch svc order_id =
     (case update_position_try svc order_id of
        Inl e \<Rightarrow> Inl (HTTPException 503 ''Order service unavailable'')
      | Inr drone_id \<Rightarrow> Inr drone_id)"

text \<open>An optional float parameter as the Python value stored and sent.\<close>

definition opt_float :: "real option \<Rightarrow> json" where
  "opt_float x = (case x of None \<Rightarrow> JNull | Some r \<Rightarrow> JFloat r)"

text \<open>
  \<open>update_position\<close>: the endpoint declares no Authorization header.  The answer is the
  dict \<open>{"message": "Position updated", ...}\<close>, of which the message is kept.
\<close>

definition update_position ::
  "services \<Rightarrow> int \<Rightarrow> real \<Rightarrow> real \<Rightarrow> real \<Rightarrow> real \<Rightarrow> real option \<Rightarrow> string option \<Rightarrow> world
     \<Rightarrow> (py_error + string) \<times> world" where
  "update_position svc order_id latitude longitude altitude speed battery_level status w =
     (case update_position_fetch svc order_id of
        Inl e \<Rightarrow> (Inl e, w)
      | Inr drone_id \<Rightarrow>
          (let tracking_point =
                 \<lparr>dt_order_id = order_id, dt_drone_id = drone_id,
                  dt_latitude = latitude, dt_longitude = longitude,
                  dt_altitude = altitude, dt_speed = speed,
                  dt_battery_level = opt_float battery_level, dt_status = status\<rparr>
           in case db_commit [TrackingRow tracking_point] w of
                (Inl e, w1) \<Rightarrow> (Inl e, w1)
              | (Inr u, w1) \<Rightarrow>
                  (case broadcast order_id
                          \<lparr>m_type = ''position_update'', m_order_id = order_id,
                           m_drone_id = drone_id, m_latitude = latitude,
                           m_longitude = longitude, m_altitude = altitude, m_speed = speed,
                           m_battery_level = opt_float battery_level, m_status = status,
                           m_waypoint = None, m_total_waypoints = None\<rparr> w1 of
                     (Inl e, w2) \<Rightarrow> (Inl e, w2)
                   | (Inr u', w2) \<Rightarrow> (Inr ''Position updated'', w2))))"

section \<open>The movement simulator\<close>

text \<open>
  One step of the loop of \<open>simulate_drone_movement\<close> builds the tracking row of waypoint
  \<open>i\<close> (\<open>total_waypoints\<close> is \<open>len(waypoints)\<close>) and the message broadcast after the commit.
\<close>

definition sim_tracking :: "int \<Rightarrow> json \<Rightarrow> nat \<Rightarrow> nat \<Rightarrow> real \<Rightarrow> DeliveryRoute \<Rightarrow> DeliveryTracking" where
  "sim_tracking order_id drone_id total_waypoints i battery waypoint =
     \<lparr>dt_order_id = order_id, dt_drone_id = drone_id,
      dt_latitude = dr_latitude waypoint, dt_longitude = dr_longitude waypoint,
      dt_altitude = of_nat (50 + i mod 10), dt_speed = of_nat (25 + i mod 15),
      dt_battery_level = JFloat battery,
      dt_status = Some (if int i < int total_waypoints - 1 then ''in_flight'' else ''landing'')\<rparr>"

definition sim_message :: "int \<Rightarrow> json \<Rightarrow> nat \<Rightarrow> nat \<Rightarrow> real \<Rightarrow> DeliveryRoute \<Rightarrow> message" where
  "sim_message order_id drone_id total_waypoints i battery waypoint =
     (let tracking = sim_tracking order_id drone_id total_waypoints i battery waypoint
      in \<lparr>m_type = ''position_update'', m_order_id = order_id, m_drone_id = drone_id,
          m_latitude = dr_latitude waypoint, m_longitude = dr_longitude waypoint,
          m_altitude = dt_altitude tracking, m_speed = dt_speed tracking,
          m_battery_level = JFloat battery, m_status = dt_status tracking,
          m_waypoint = Some (int i + 1), m_total_waypoints = Some (int total_waypoints)\<rparr>)"

text \<open>
  The loop \<open>for i, waypoint in enumerate(waypoints)\<close>, over the waypoints still to come,
  with the index \<open>i\<close> and the value of \<open>battery\<close>.  An exception of the commit leaves the
  loop and the run; the two-second sleep changes nothing in the state.
\<close>

fun simulate_loop ::
  "int \<Rightarrow> json \<Rightarrow> nat \<Rightarrow> nat \<Rightarrow> real \<Rightarrow> DeliveryRoute list \<Rightarrow> world \<Rightarrow> (py_error + unit) \<times> world" where
  "simulate_loop order_id drone_id total_waypoints i battery [] w = (Inr (), w)"
| "simulate_loop order_id drone_id total_waypoints i battery (waypoint # rest) w =
     (case db_commit [TrackingRow (sim_tracking order_id drone_id total_waypoints i battery waypoint)] w of
        (Inl e, w1) \<Rightarrow> (Inl e, w1)
      | (Inr u, w1) \<Rightarrow>
          (case broadcast order_id (sim_message order_id drone_id total_waypoints i battery waypoint) w1 of
             (Inl e, w2) \<Rightarrow> (Inl e, w2)
           | (Inr u', w2) \<Rightarrow>
               simulate_loop order_id drone_id total_waypoints (i + 1) (battery - 0.5) rest w2))"

definition simulate_drone_movement ::
  "int \<Rightarrow> json \<Rightarrow> DeliveryRoute list \<Rightarrow> world \<Rightarrow> (py_error + unit) \<times> world" where
  "simulate_drone_movement order_id drone_id waypoints w =
     simulate_loop order_id drone_id (length waypoints) 0 100.0 waypoints w"

section \<open>The drone service\<close>

text \<open>The two enums, with their string values.\<close>

datatype DroneDetailedStatus =
    IDLE | CHARGING | ASSIGNED | GOING_TO_RESTAURANT | PICKING_UP | IN_DELIVERY
  | RETURNING | MAINTENANCE | ERROR

fun status_value :: "DroneDetailedStatus \<Rightarrow> string" where
  "status_value IDLE = ''idle''"
| "status_value CHARGING = ''charging''"
| "status_value ASSIGNED = ''assigned''"
| "status_value GOING_TO_RESTAURANT = ''going_to_restaurant''"
| "status_value PICKING_UP = ''picking_up''"
| "status_value IN_DELIVERY = ''in_delivery''"
| "status_value RETURNING = ''returning''"
| "status_value MAINTENANCE = ''maintenance''"
| "status_value ERROR = ''error''"

datatype MaintenanceType =
    ROUTINE | REPAIR | BATTERY_REPLACEMENT | MOTOR_CHECK | SOFTWARE_UPDATE

fun maintenance_value :: "MaintenanceType \<Rightarrow> string" where
  "maintenance_value ROUTINE = ''routine''"
| "maintenance_value REPAIR = ''repair''"
| "maintenance_value BATTERY_REPLACEMENT = ''battery_replacement''"
| "maintenance_value MOTOR_CHECK = ''motor_check''"
| "maintenance_value SOFTWARE_UPDATE = ''software_update''"

text \<open>
  Texts built by f-strings are kept as their parts: the reason of a status change and
  the message of an alert.
\<close>

datatype reason_text =
    NoReason
  | Reason string
  | ScheduledMaintenance MaintenanceType

datatype alert_text =
    StatusErrorReason "string option"
  | BatteryLevelLow real
  | BatteryHealthDegraded real

text \<open>
  Rows of the five tables.  A \<open>datetime\<close> is a number of seconds; the columns
  \<open>changed_at\<close>, \<open>created_at\<close>, \<open>logged_at\<close> and \<open>cost\<close>, which no modelled endpoint sets,
  are left out, and a table lists its rows in the order of insertion.
\<close>

record DroneStatusHistory =
  sh_drone_id :: int
  sh_status :: string
  sh_previous_status :: "string option"
  sh_latitude :: "real option"
  sh_longitude :: "real option"
  sh_battery_level :: "json option"
  sh_reason :: reason_text
  sh_changed_by :: json

record DroneMaintenance =
  dm_id :: int
  dm_drone_id :: int
  dm_maintenance_type :: string
  dm_scheduled_date :: int
  dm_completed_date :: "int option"
  dm_technician_id :: json
  dm_notes :: "string option"

record DronePerformance =
  dp_drone_id :: int
  dp_total_deliveries :: int
  dp_total_distance_km :: real
  dp_total_flight_time_minutes :: int
  dp_average_speed :: real
  dp_success_rate :: real
  dp_last_updated :: int

record DroneBatteryLog =
  bl_drone_id :: int
  bl_battery_level :: real
  bl_voltage :: "real option"
  bl_temperature :: "real option"
  bl_health_percentage :: "real option"
  bl_charge_cycles :: "int option"

record DroneAlert =
  da_id :: int
  da_drone_id :: int
  da_alert_type :: string
  da_severity :: string
  da_message :: alert_text
  da_is_resolved :: int
  da_resolved_at :: "int option"

text \<open>
  What a session holds until the commit: rows added with \<open>db.add\<close> and attribute changes
  of loaded rows.  The primary key of an inserted maintenance or alert row is set by the
  database: one more than the number of rows of the table (no endpoint deletes a row).
\<close>

datatype drone_op =
    AddHistory DroneStatusHistory
  | AddMaintenance DroneMaintenance
  | AddBatteryLog DroneBatteryLog
  | AddAlert DroneAlert
  | SetMaintenance int DroneMaintenance
  | SetPerformance int DronePerformance
  | SetAlert int DroneAlert

text \<open>
  The state the drone service works on: the committed rows, the answers of the database
  to the coming commits (as for the delivery service), the clock read by
  \<open>datetime.utcnow()\<close>, and the trace of the \<open>PUT /drones/{id}\<close> requests sent to the order
  service.
\<close>

record drone_world =
  status_history :: "DroneStatusHistory list"
  maintenance :: "DroneMaintenance list"
  performance :: "DronePerformance list"
  battery_logs :: "DroneBatteryLog list"
  alerts :: "DroneAlert list"
  drone_commit_outcomes :: "bool list"
  utcnow :: int
  order_service_puts :: "(int \<times> string) list"

fun apply_op :: "drone_op \<Rightarrow> drone_world \<Rightarrow> drone_world" where
  "apply_op (AddHistory h) w = w\<lparr>status_history := status_history w @ [h]\<rparr>"
| "apply_op (AddMaintenance m) w =
     w\<lparr>maintenance := maintenance w @ [m\<lparr>dm_id := int (length (maintenance w)) + 1\<rparr>]\<rparr>"
| "apply_op (AddBatteryLog l) w = w\<lparr>battery_logs := battery_logs w @ [l]\<rparr>"
| "apply_op (AddAlert a) w =
     w\<lparr>alerts := alerts w @ [a\<lparr>da_id := int (length (alerts w)) + 1\<rparr>]\<rparr>"
| "apply_op (SetMaintenance i m) w =
     w\<lparr>maintenance := map (\<lambda>r. if dm_id r = i then m else r) (maintenance w)\<rparr>"
| "apply_op (SetPerformance d p) w =
     w\<lparr>performance := map (\<lambda>r. if dp_drone_id r = d then p else r) (performance w)\<rparr>"
| "apply_op (SetAlert i a) w =
     w\<lparr>alerts := map (\<lambda>r. if da_id r = i then a else r) (alerts w)\<rparr>"

fun apply_ops :: "drone_op list \<Rightarrow> drone_world \<Rightarrow> drone_world" where
  "apply_ops [] w = w"
| "apply_ops (x # xs) w = apply_ops xs (apply_op x w)"

definition drone_commit :: "drone_op list \<Rightarrow> drone_world \<Rightarrow> (py_error + unit) \<times> drone_world" where
  "drone_commit pending w =
     (case drone_commit_outcomes w of
        [] \<Rightarrow> (Inr (), apply_ops pending w)
      | ok # rest \<Rightarrow>
          if ok then (Inr (), apply_ops pending (w\<lparr>drone_commit_outcomes := rest\<rparr>))
          else (Inl SQLAlchemyError, w\<lparr>drone_commit_outcomes := rest\<rparr>))"

text \<open>
  The collaborators of the drone service: the user service (through \<open>verify_token\<close>, the
  same function as in the delivery service) and the answer of the order service to
  \<open>GET /drones\<close>.
\<close>

record drone_services =
  auth :: services
  drones_listing :: "py_error + response"

text \<open>
  The role check after \<open>verify_token\<close>:
  \<open>if not user or user.get("role") not in allowed: raise HTTPException(403, ...)\<close>.
\<close>

definition check_role :: "json \<Rightarrow> string list \<Rightarrow> py_error + unit" where
  "check_role user allowed =
     (if \<not> truthy user then Inl (HTTPException 403 ''Admin access required'')
      else (case dict_get user ''role'' JNull of
              Inl e \<Rightarrow> Inl e
            | Inr role \<Rightarrow>
                if role \<in> set (map JStr allowed) then Inr ()
                else Inl (HTTPException 403 ''Admin access required'')))"

text \<open>\<open>verify_token\<close> followed by the role check: the head of the four guarded endpoints.\<close>

definition authorize :: "drone_services \<Rightarrow> string option \<Rightarrow> string list \<Rightarrow> py_error + json" where
  "authorize svc authorization allowed =
     (case verify_token (auth svc) authorization of
        Inl e \<Rightarrow> Inl e
      | Inr user \<Rightarrow>
          (case check_role user allowed of
             Inl e \<Rightarrow> Inl e
           | Inr u \<Rightarrow> Inr user))"

text \<open>Python's \<open>==\<close> between a decoded value and an int.\<close>

fun json_eq_int :: "json \<Rightarrow> int \<Rightarrow> bool" where
  "json_eq_int (JInt i) n = (i = n)"
| "json_eq_int (JFloat r) n = (r = of_int n)"
| "json_eq_int (JBool b) n = ((if b then 1 else 0) = n)"
| "json_eq_int j n = False"

text \<open>
  \<open>get_drone_from_order_service\<close>: \<open>next((d for d in drones if d["id"] == drone_id), None)\<close>
  under a bare \<open>except: pass\<close>, so every exception gives \<open>None\<close>.
\<close>

fun find_drone :: "json list \<Rightarrow> int \<Rightarrow> json option" where
  "find_drone [] drone_id = None"
| "find_drone (d # ds) drone_id =
     (case dict_index d ''id'' of
        Inl e \<Rightarrow> None
      | Inr v \<Rightarrow> if json_eq_int v drone_id then Some d else find_drone ds drone_id)"

definition get_drone_from_order_service :: "drone_services \<Rightarrow> int \<Rightarrow> json option" where
  "get_drone_from_order_service svc drone_id =
     (case drones_listing svc of
        Inl e \<Rightarrow> None
      | Inr res \<Rightarrow>
          if status_code res = 200
          then (case body res of
                  Some (JArr drones) \<Rightarrow> find_drone drones drone_id
                | _ \<Rightarrow> None)
          else None)"

text \<open>The request bodies.\<close>

record StatusChange =
  sc_status :: DroneDetailedStatus
  sc_reason :: "string option"
  sc_latitude :: "real option"
  sc_longitude :: "real option"

record MaintenanceCreate =
  mc_drone_id :: int
  mc_maintenance_type :: MaintenanceType
  mc_scheduled_date :: int
  mc_notes :: "string option"

text \<open>The latest status of a drone: the last row of its history.\<close>

definition latest_status :: "drone_world \<Rightarrow> int \<Rightarrow> DroneStatusHistory option" where
  "latest_status w drone_id =
     (case filter (\<lambda>h. sh_drone_id h = drone_id) (status_history w) of
        [] \<Rightarrow> None
      | hs \<Rightarrow> Some (last hs))"

definition reason_of :: "string option \<Rightarrow> reason_text" where
  "reason_of r = (case r of None \<Rightarrow> NoReason | Some s \<Rightarrow> Reason s)"

text \<open>
  \<open>update_drone_status\<close>, past the authorization: the history row, the \<open>PUT\<close> to the order
  service (its outcome is ignored), the alert for \<open>ERROR\<close>, one commit.  The answer is the
  pair of the previous and the new status.
\<close>

definition update_drone_status_body ::
  "drone_services \<Rightarrow> json \<Rightarrow> int \<Rightarrow> StatusChange \<Rightarrow> drone_world
     \<Rightarrow> (py_error + string \<times> string) \<times> drone_world" where
  "update_drone_status_body svc user drone_id status_change w =
     (let previous_status = (case latest_status w drone_id of
                               None \<Rightarrow> ''unknown''
                             | Some latest \<Rightarrow> sh_status latest);
          current_battery = (case get_drone_from_order_service svc drone_id of
                               None \<Rightarrow> Inr (JInt 0)
                             | Some drone \<Rightarrow>
                                 if truthy drone then dict_get drone ''battery_level'' (JInt 0)
                                 else Inr (JInt 0))
      in case current_battery of
           Inl e \<Rightarrow> (Inl e, w)
         | Inr battery \<Rightarrow>
             (case dict_get user ''user_id'' JNull of
                Inl e \<Rightarrow> (Inl e, w)
              | Inr user_id \<Rightarrow>
                  (let history_record =
                         \<lparr>sh_drone_id = drone_id, sh_status = status_value (sc_status status_change),
                          sh_previous_status = Some previous_status,
                          sh_latitude = sc_latitude status_change,
                          sh_longitude = sc_longitude status_change,
                          sh_battery_level = Some battery,
                          sh_reason = reason_of (sc_reason status_change),
                          sh_changed_by = user_id\<rparr>;
                       w1 = w\<lparr>order_service_puts := order_service_puts w
                                  @ [(drone_id, status_value (sc_status status_change))]\<rparr>;
                       pending = [AddHistory history_record] @
                         (if sc_status status_change = ERROR
                          then [AddAlert \<lparr>da_id = 0, da_drone_id = drone_id,
                                          da_alert_type = ''status_error'', da_severity = ''high'',
                                          da_message = StatusErrorReason (sc_reason status_change),
                                          da_is_resolved = 0, da_resolved_at = None\<rparr>]
                          else [])
                   in case drone_commit pending w1 of
                        (Inl e, w2) \<Rightarrow> (Inl e, w2)
                      | (Inr u, w2) \<Rightarrow>
                          (Inr (previous_status, status_value (sc_status status_change)), w2))))"

definition update_drone_status ::
  "drone_services \<Rightarrow> int \<Rightarrow> StatusChange \<Rightarrow> string option \<Rightarrow> drone_world
     \<Rightarrow> (py_error + string \<times> string) \<times> drone_world" where
  "update_drone_status svc drone_id status_change authorization w =
     (case authorize svc authorization [''admin'', ''restaurant''] of
        Inl e \<Rightarrow> (Inl e, w)
      | Inr user \<Rightarrow> update_drone_status_body svc user drone_id status_change w)"

text \<open>
  \<open>schedule_maintenance\<close>: the maintenance row and a first commit; when the date is within
  24 hours, a status row \<open>maintenance\<close> and a second commit.  The answer is the refreshed
  maintenance row.
\<close>

definition schedule_maintenance_body ::
  "json \<Rightarrow> MaintenanceCreate \<Rightarrow> drone_world \<Rightarrow> (py_error + DroneMaintenance) \<times> drone_world" where
  "schedule_maintenance_body user m w =
     (let db_maintenance =
            \<lparr>dm_id = 0, dm_drone_id = mc_drone_id m,
             dm_maintenance_type = maintenance_value (mc_maintenance_type m),
             dm_scheduled_date = mc_scheduled_date m, dm_completed_date = None,
             dm_technician_id = JNull, dm_notes = mc_notes m\<rparr>
      in case drone_commit [AddMaintenance db_maintenance] w of
           (Inl e, w1) \<Rightarrow> (Inl e, w1)
         | (Inr u, w1) \<Rightarrow>
             (let refreshed = db_maintenance\<lparr>dm_id := int (length (maintenance w)) + 1\<rparr>
              in if mc_scheduled_date m \<le> utcnow w1 + 24 * 3600
                 then (case dict_get user ''user_id'' JNull of
                         Inl e \<Rightarrow> (Inl e, w1)
                       | Inr user_id \<Rightarrow>
                           (case drone_commit
                                   [AddHistory
                                      \<lparr>sh_drone_id = mc_drone_id m,
                                       sh_status = status_value MAINTENANCE,
                                       sh_previous_status = None,
                                       sh_latitude = None, sh_longitude = None,
                                       sh_battery_level = None,
                                       sh_reason = ScheduledMaintenance (mc_maintenance_type m),
                                       sh_changed_by = user_id\<rparr>] w1 of
                              (Inl e, w2) \<Rightarrow> (Inl e, w2)
                            | (Inr u', w2) \<Rightarrow> (Inr refreshed, w2)))
                 else (Inr refreshed, w1)))"

definition schedule_maintenance ::
  "drone_services \<Rightarrow> MaintenanceCreate \<Rightarrow> string option \<Rightarrow> drone_world
     \<Rightarrow> (py_error + DroneMaintenance) \<times> drone_world" where
  "schedule_maintenance svc m authorization w =
     (case authorize svc authorization [''admin''] of
        Inl e \<Rightarrow> (Inl e, w)
      | Inr user \<Rightarrow> schedule_maintenance_body user m w)"

text \<open>\<open>query.filter(id == i).first()\<close> on the two tables addressed by primary key.\<close>

definition maintenance_by_id :: "drone_world \<Rightarrow> int \<Rightarrow> DroneMaintenance option" where
  "maintenance_by_id w i = find (\<lambda>r. dm_id r = i) (maintenance w)"

definition alert_by_id :: "drone_world \<Rightarrow> int \<Rightarrow> DroneAlert option" where
  "alert_by_id w i = find (\<lambda>r. da_id r = i) (alerts w)"

definition complete_maintenance_body ::
  "json \<Rightarrow> int \<Rightarrow> string option \<Rightarrow> drone_world \<Rightarrow> (py_error + string) \<times> drone_world" where
  "complete_maintenance_body user maintenance_id notes w =
     (case maintenance_by_id w maintenance_id of
        None \<Rightarrow> (Inl (HTTPException 404 ''Maintenance record not found''), w)
      | Some row \<Rightarrow>
          (case dict_get user ''user_id'' JNull of
             Inl e \<Rightarrow> (Inl e, w)
           | Inr user_id \<Rightarrow>
               (let row1 = row\<lparr>dm_completed_date := Some (utcnow w)\<rparr>;
                    row2 = (case notes of
                              None \<Rightarrow> row1
                            | Some n \<Rightarrow> if n = [] then row1 else row1\<lparr>dm_notes := Some n\<rparr>);
                    row3 = row2\<lparr>dm_technician_id := user_id\<rparr>;
                    status_change =
                      \<lparr>sh_drone_id = dm_drone_id row3, sh_status = status_value IDLE,
                       sh_previous_status = None, sh_latitude = None, sh_longitude = None,
                       sh_battery_level = None, sh_reason = Reason ''Maintenance completed'',
                       sh_changed_by = user_id\<rparr>
                in case drone_commit [SetMaintenance maintenance_id row3, AddHistory status_change] w of
                     (Inl e, w1) \<Rightarrow> (Inl e, w1)
                   | (Inr u, w1) \<Rightarrow> (Inr ''Maintenance completed'', w1))))"

definition complete_maintenance ::
  "drone_services \<Rightarrow> int \<Rightarrow> string option \<Rightarrow> string option \<Rightarrow> drone_world
     \<Rightarrow> (py_error + string) \<times> drone_world" where
  "complete_maintenance svc maintenance_id notes authorization w =
     (case authorize svc authorization [''admin''] of
        Inl e \<Rightarrow> (Inl e, w)
      | Inr user \<Rightarrow> complete_maintenance_body user maintenance_id notes w)"

definition resolve_alert ::
  "drone_services \<Rightarrow> int \<Rightarrow> string option \<Rightarrow> drone_world \<Rightarrow> (py_error + string) \<times> drone_world" where
  "resolve_alert svc alert_id authorization w =
     (case authorize svc authorization [''admin''] of
        Inl e \<Rightarrow> (Inl e, w)
      | Inr user \<Rightarrow>
          (case alert_by_id w alert_id of
             None \<Rightarrow> (Inl (HTTPException 404 ''Alert not found''), w)
           | Some alert \<Rightarrow>
               (case drone_commit
                       [SetAlert alert_id
                          (alert\<lparr>da_is_resolved := 1, da_resolved_at := Some (utcnow w)\<rparr>)] w of
                  (Inl e, w1) \<Rightarrow> (Inl e, w1)
                | (Inr u, w1) \<Rightarrow> (Inr ''Alert resolved'', w1))))"

text \<open>
  \<open>update_performance\<close> declares no Authorization header.  Without a row for the drone
  the new object has no attribute values yet (the column defaults are applied by the
  insert), so \<open>performance.total_deliveries += ...\<close> raises \<open>TypeError\<close>.  The answer is
  the updated row.
\<close>

definition update_success_rate :: "DronePerformance \<Rightarrow> int \<Rightarrow> bool \<Rightarrow> py_error + DronePerformance" where
  "update_success_rate p deliveries_completed success =
     (if 0 < deliveries_completed
      then (let n = dp_total_deliveries p;
                successes = py_int (fdiv (fmul (round_double (of_int n)) (dp_success_rate p)) 100)
                            + (if success then 1 else 0)
            in case py_truediv successes n of
                 Inl e \<Rightarrow> Inl e
               | Inr q \<Rightarrow> Inr (p\<lparr>dp_success_rate := fmul q 100\<rparr>))
      else Inr p)"

definition update_performance ::
  "int \<Rightarrow> int \<Rightarrow> real \<Rightarrow> int \<Rightarrow> bool \<Rightarrow> drone_world \<Rightarrow> (py_error + DronePerformance) \<times> drone_world" where
  "update_performance drone_id deliveries_completed distance_km flight_time_minutes success w =
     (case find (\<lambda>r. dp_drone_id r = drone_id) (performance w) of
        None \<Rightarrow> (Inl TypeError, w)
      | Some p \<Rightarrow>
          (let p1 = p\<lparr>dp_total_deliveries := dp_total_deliveries p + deliveries_completed,
                      dp_total_distance_km := fadd (dp_total_distance_km p) distance_km,
                      dp_total_flight_time_minutes := dp_total_flight_time_minutes p + flight_time_minutes\<rparr>;
               p2 = (if 0 < dp_total_flight_time_minutes p1
                     then p1\<lparr>dp_average_speed :=
                               fmul (fdiv (dp_total_distance_km p1)
                                          (round_double (of_int (dp_total_flight_time_minutes p1))))
                                    60\<rparr>
                     else p1)
           in case update_success_rate p2 deliveries_completed success of
                Inl e \<Rightarrow> (Inl e, w)
              | Inr p3 \<Rightarrow>
                  (let p4 = p3\<lparr>dp_last_updated := utcnow w\<rparr>
                   in case drone_commit [SetPerformance drone_id p4] w of
                        (Inl e, w1) \<Rightarrow> (Inl e, w1)
                      | (Inr u, w1) \<Rightarrow> (Inr p4, w1))))"

text \<open>
  \<open>log_battery_status\<close> declares no Authorization header: the log row, the alerts for a
  low level and for a degraded health, one commit.
\<close>

definition log_battery_status ::
  "int \<Rightarrow> real \<Rightarrow> real option \<Rightarrow> real option \<Rightarrow> real option \<Rightarrow> int option \<Rightarrow> drone_world
     \<Rightarrow> (py_error + string) \<times> drone_world" where
  "log_battery_status drone_id battery_level voltage temperature health_percentage charge_cycles w =
     (let log_entry = \<lparr>bl_drone_id = drone_id, bl_battery_level = battery_level,
                       bl_voltage = voltage, bl_temperature = temperature,
                       bl_health_percentage = health_percentage,
                       bl_charge_cycles = charge_cycles\<rparr>;
          level_alert =
            (if battery_level < 20
             then [AddAlert \<lparr>da_id = 0, da_drone_id = drone_id, da_alert_type = ''low_battery'',
                             da_severity = (if battery_level < 10 then ''high'' else ''medium''),
                             da_message = BatteryLevelLow battery_level,
                             da_is_resolved = 0, da_resolved_at = None\<rparr>]
             else []);
          health_alert =
            (case health_percentage of
               None \<Rightarrow> []
             | Some h \<Rightarrow>
                 if h \<noteq> 0 \<and> h < 60
                 then [AddAlert \<lparr>da_id = 0, da_drone_id = drone_id,
                                 da_alert_type = ''battery_health'', da_severity = ''high'',
                                 da_message = BatteryHealthDegraded h,
                                 da_is_resolved = 0, da_resolved_at = None\<rparr>]
                 else [])
      in case drone_commit ([AddBatteryLog log_entry] @ level_alert @ health_alert) w of
           (Inl e, w1) \<Rightarrow> (Inl e, w1)
         | (Inr u, w1) \<Rightarrow> (Inr ''Battery status logged'', w1))"

section \<open>Notions used to state the properties\<close>

text \<open>The connections registered for an order: the list under the key, none without the key.\<close>

definition subscribers :: "world \<Rightarrow> int \<Rightarrow> websocket list" where
  "subscribers w order_id = (case active_connections w order_id of None \<Rightarrow> [] | Some cs \<Rightarrow> cs)"

text \<open>What one broadcast of \<open>msg\<close> to \<open>conns\<close> delivers: one copy for each connection whose
  \<open>send_json\<close> does not raise, in the order of the list.\<close>

definition deliveries :: "world \<Rightarrow> websocket list \<Rightarrow> message \<Rightarrow> (websocket \<times> message) list" where
  "deliveries w conns msg = map (\<lambda>c. (c, msg)) (filter (\<lambda>c. c \<notin> closed w) conns)"

text \<open>The row and the message of step \<open>i\<close> of a simulator run, whose battery is \<open>100 - i / 2\<close>.\<close>

definition step_tracking :: "int \<Rightarrow> json \<Rightarrow> nat \<Rightarrow> nat \<times> DeliveryRoute \<Rightarrow> DeliveryTracking" where
  "step_tracking order_id drone_id n p =
     sim_tracking order_id drone_id n (fst p) (100 - real (fst p) / 2) (snd p)"

definition step_message :: "int \<Rightarrow> json \<Rightarrow> nat \<Rightarrow> nat \<times> DeliveryRoute \<Rightarrow> message" where
  "step_message order_id drone_id n p =
     sim_message order_id drone_id n (fst p) (100 - real (fst p) / 2) (snd p)"

text \<open>Concrete states and inputs, for the worked instances below.\<close>

definition empty_world :: world where
  "empty_world = \<lparr>db_routes = [], db_tracking = [], commit_outcomes = [],
                  active_connections = Map.empty, closed = {}, sent = [], published = []\<rparr>"

definition example_world :: world where
  "example_world = empty_world\<lparr>active_connections := [7 \<mapsto> [1, 2, 3]], closed := {2}\<rparr>"

definition example_route :: "DeliveryRoute list" where
  "example_route =
     [\<lparr>dr_order_id = 7, dr_drone_id = JInt 3, dr_waypoint_sequence = 0,
       dr_latitude = 10, dr_longitude = 100, dr_estimated_time = 0\<rparr>,
      \<lparr>dr_order_id = 7, dr_drone_id = JInt 3, dr_waypoint_sequence = 1,
       dr_latitude = 12, dr_longitude = 104, dr_estimated_time = 60\<rparr>]"

definition example_message :: message where
  "example_message =
     \<lparr>m_type = ''position_update'', m_order_id = 7, m_drone_id = JInt 3,
      m_latitude = 10, m_longitude = 100, m_altitude = 50, m_speed = 30,
      m_battery_level = JNull, m_status = None, m_waypoint = None, m_total_waypoints = None\<rparr>"

text \<open>
  Collaborators for the worked instances: a user service that accepts every token, with
  an order service that knows no order (404), and with one that answers order 7 by a
  document naming drone 3.
\<close>

definition accepting_users :: "string \<Rightarrow> py_error + response" where
  "accepting_users h =
     Inr \<lparr>status_code = 200, body = Some (JObj [(''user_id'', JInt 1), (''role'', JStr ''admin'')])\<rparr>"

definition no_orders :: services where
  "no_orders = \<lparr>user_service = accepting_users,
                 order_service = (\<lambda>order_id h. Inr \<lparr>status_code = 404, body = None\<rparr>)\<rparr>"

definition one_order :: services where
  "one_order = \<lparr>user_service = accepting_users,
                 order_service = (\<lambda>order_id h.
                    Inr \<lparr>status_code = 200, body = Some (JObj [(''drone_id'', JInt 3)])\<rparr>)\<rparr>"

text \<open>
  The sixteen route rows \<open>start_tracking\<close> plans for an order between two coordinates:
  the rows of the waypoints 0, ..., 15.
\<close>

definition planned_routes :: "int \<Rightarrow> json \<Rightarrow> real \<times> real \<times> real \<times> real \<Rightarrow> DeliveryRoute list" where
  "planned_routes order_id drone_id c =
     (case c of (start_lat, start_lng, end_lat, end_lng) \<Rightarrow>
        map (\<lambda>i. delivery_route order_id drone_id
                    (interpolate start_lat start_lng end_lat end_lng 15 (int i)))
            [0 ..< 16])"

text \<open>A database whose first commit succeeds and whose second commit fails.\<close>

definition second_commit_fails :: world where
  "second_commit_fails = empty_world\<lparr>commit_outcomes := [True, False]\<rparr>"

text \<open>
  For a request header \<open>Bearer \<close> followed by \<open>t\<close>, the token is the text of \<open>t\<close> up to its first
  space, and \<open>sent_header t\<close> is the Authorization header under which the user service is
  asked about it.
\<close>

definition sent_header :: "string \<Rightarrow> string" where
  "sent_header t = ''Bearer '' @ takeWhile (\<lambda>c. c \<noteq> CHR '' '') t"

text \<open>
  The user service refuses: the call raises, or the answer is not a 200 with a decodable
  body that holds a user (a truthy document).
\<close>

definition refused :: "py_error + response \<Rightarrow> bool" where
  "refused r =
     (case r of
        Inl e \<Rightarrow> True
      | Inr res \<Rightarrow>
          if status_code res = 200
          then (case body res of None \<Rightarrow> True | Some user \<Rightarrow> \<not> truthy user)
          else True)"

text \<open>
  A request carries no valid token: the Authorization header is missing or is not of the
  form \<open>Bearer ...\<close>, or the user service refuses the token it carries.
\<close>

definition no_valid_token :: "services \<Rightarrow> string option \<Rightarrow> bool" where
  "no_valid_token svc authorization =
     (case authorization of
        None \<Rightarrow> True
      | Some a \<Rightarrow>
          if startswith a ''Bearer ''
          then refused (user_service svc (sent_header (drop (length ''Bearer '') a)))
          else True)"

text \<open>
  The answer of the database to the commit number \<open>k\<close> (from 0) of those to come; and the
  initial tracking point of a session.
\<close>

definition commit_succeeds :: "nat \<Rightarrow> world \<Rightarrow> bool" where
  "commit_succeeds k w = (case drop k (commit_outcomes w) of [] \<Rightarrow> True | ok # rest \<Rightarrow> ok)"

definition initial_sample :: "int \<Rightarrow> json \<Rightarrow> real \<Rightarrow> real \<Rightarrow> json \<Rightarrow> DeliveryTracking" where
  "initial_sample order_id drone_id start_lat start_lng battery =
     \<lparr>dt_order_id = order_id, dt_drone_id = drone_id,
      dt_latitude = start_lat, dt_longitude = start_lng,
      dt_altitude = 0, dt_speed = 0,
      dt_battery_level = battery, dt_status = Some ''taking_off''\<rparr>"

text \<open>
  An order service that answers 404 to a request with an Authorization header and 401 to
  one without; and one that answers order 7 by a document with drone 3, the coordinates
  (10, 100) and (12, 104) and no battery level.
\<close>

definition picky_orders :: services where
  "picky_orders =
     \<lparr>user_service = accepting_users,
      order_service = (\<lambda>order_id h.
         case h of
           None \<Rightarrow> Inr \<lparr>status_code = 401, body = None\<rparr>
         | Some a \<Rightarrow> Inr \<lparr>status_code = 404, body = None\<rparr>)\<rparr>"

definition order_7 :: "(string \<times> json) list" where
  "order_7 = [(''drone_id'', JInt 3),
              (''restaurant_lat'', JFloat 10), (''restaurant_lng'', JFloat 100),
              (''delivery_lat'', JFloat 12), (''delivery_lng'', JFloat 104)]"

definition order_7_service :: services where
  "order_7_service =
     \<lparr>user_service = accepting_users,
      order_service = (\<lambda>order_id h. Inr \<lparr>status_code = 200, body = Some (JObj order_7)\<rparr>)\<rparr>"

text \<open>
  A user service that rejects every token, with an order service that answers every
  order by a document naming drone 3; an empty drone store, and one holding the
  performance row of drone 3.
\<close>

definition rejecting :: services where
  "rejecting = \<lparr>user_service = (\<lambda>h. Inr \<lparr>status_code = 401, body = None\<rparr>),
                 order_service = (\<lambda>order_id h.
                    Inr \<lparr>status_code = 200, body = Some (JObj [(''drone_id'', JInt 3)])\<rparr>)\<rparr>"

definition rejecting_drone_services :: drone_services where
  "rejecting_drone_services = \<lparr>auth = rejecting, drones_listing = Inl ConnectError\<rparr>"

definition empty_drone_world :: drone_world where
  "empty_drone_world =
     \<lparr>status_history = [], maintenance = [], performance = [], battery_logs = [], alerts = [],
      drone_commit_outcomes = [], utcnow = 0, order_service_puts = []\<rparr>"

definition drone_3_performance :: DronePerformance where
  "drone_3_performance =
     \<lparr>dp_drone_id = 3, dp_total_deliveries = 0, dp_total_distance_km = 0,
      dp_total_flight_time_minutes = 0, dp_average_speed = 0, dp_success_rate = 100,
      dp_last_updated = 0\<rparr>"

text \<open>The errors by which an endpoint turns a request away for its token or role.\<close>

definition auth_error :: "py_error \<Rightarrow> bool" where
  "auth_error e = (e \<in> {HTTPException 401 ''Not authenticated'', HTTPException 401 ''Invalid token'',
                        HTTPException 403 ''Admin access required''})"

definition example_status_change :: StatusChange where
  "example_status_change =
     \<lparr>sc_status = ERROR, sc_reason = Some ''motor'', sc_latitude = None, sc_longitude = None\<rparr>"

definition example_maintenance :: MaintenanceCreate where
  "example_maintenance =
     \<lparr>mc_drone_id = 3, mc_maintenance_type = ROUTINE, mc_scheduled_date = 100, mc_notes = None\<rparr>"


definition v_start :: real where
  "v_start = 6682135867480099 / 2 ^ 47"

definition v_end :: real where
  "v_end = - (3102387286588575 / 2 ^ 46)"

section \<open>Properties of the rounding\<close>

lemma round_double_0: "round_double 0 = 0"
  by (simp add: round_double_def)

lemma round_double_minus: "round_double (- x) = - round_double x"
  by (simp add: round_double_def Let_def sgn_minus)

lemma round_half_even_error: "\<bar>of_int (round_half_even r) - r\<bar> \<le> 1 / 2"
proof -
  have "of_int \<lfloor>r\<rfloor> \<le> r" "r < of_int \<lfloor>r\<rfloor> + 1" by linarith+
  then show ?thesis by (auto simp: round_half_even_def Let_def)
qed

lemma round_half_even_nonneg: "0 \<le> r \<Longrightarrow> 0 \<le> round_half_even r"
  by (auto simp: round_half_even_def Let_def)

lemma round_half_even_int: "round_half_even (of_int k) = k"
  by (simp add: round_half_even_def)

lemma round_half_even_tie:
  "round_half_even (of_int k + 1 / 2) = (if even k then k else k + 1)"
proof -
  have "\<lfloor>of_int k + (1 / 2 :: real)\<rfloor> = k" by (intro floor_unique) simp_all
  then show ?thesis by (simp add: round_half_even_def)
qed

lemma round_double_nonneg: "0 \<le> x \<Longrightarrow> 0 \<le> round_double x"
  by (auto simp: round_double_def Let_def sgn_if intro!: mult_nonneg_nonneg round_half_even_nonneg)

lemma round_double_error: "\<bar>round_double x - x\<bar> \<le> \<bar>x\<bar> / 2 ^ 53"
proof (cases "x = 0")
  case True
  then show ?thesis by (simp add: round_double_def)
next
  case False
  define k where "k = \<lfloor>log 2 \<bar>x\<bar>\<rfloor>"
  define p where "p = (2::real) powr of_int (k - 52)"
  have p0: "0 < p" by (simp add: p_def)
  have ax: "0 < \<bar>x\<bar>" using False by simp
  have "of_int k \<le> log 2 \<bar>x\<bar>" unfolding k_def by simp
  then have "2 powr of_int k \<le> 2 powr log 2 \<bar>x\<bar>" by simp
  then have kx: "2 powr of_int k \<le> \<bar>x\<bar>" using ax by simp
  have "p = 2 powr of_int k / 2 ^ 52"
    by (simp add: p_def powr_diff)
  then have px: "p \<le> \<bar>x\<bar> / 2 ^ 52" using kx by (simp add: divide_right_mono)
  define m where "m = round_half_even (\<bar>x\<bar> / p)"
  have rd: "round_double x = sgn x * (of_int m * p)"
    using False by (simp add: round_double_def Let_def k_def p_def m_def)
  have "x = sgn x * (\<bar>x\<bar> / p * p)" using p0 by (simp add: sgn_if)
  then have "round_double x - x = sgn x * ((of_int m - \<bar>x\<bar> / p) * p)"
    unfolding rd by (simp add: algebra_simps)
  then have "\<bar>round_double x - x\<bar> = \<bar>of_int m - \<bar>x\<bar> / p\<bar> * p"
    using False p0 by (simp add: abs_mult abs_sgn_eq)
  also have "\<dots> \<le> 1 / 2 * p"
    using round_half_even_error [of "\<bar>x\<bar> / p"] p0 unfolding m_def
    by (intro mult_right_mono) simp_all
  also have "\<dots> \<le> 1 / 2 * (\<bar>x\<bar> / 2 ^ 52)" using px by simp
  also have "\<dots> = \<bar>x\<bar> / 2 ^ 53" by simp
  finally show ?thesis .
qed

lemma round_double_eval:
  assumes "0 < x" "2 ^ 52 \<le> x * 2 ^ s" "x * 2 ^ s < 2 ^ 53"
  shows "round_double x = of_int (round_half_even (x * 2 ^ s)) / 2 ^ s"
proof -
  have "(2::real) powr (52 - real s) = 2 ^ 52 / 2 ^ s"
    by (simp add: powr_diff powr_realpow)
  moreover have "(2::real) powr (53 - real s) = 2 ^ 53 / 2 ^ s"
    by (simp add: powr_diff powr_realpow)
  moreover have "2 ^ 52 / 2 ^ s \<le> x" using assms(2) by (simp add: pos_divide_le_eq)
  moreover have "x < 2 ^ 53 / 2 ^ s" using assms(3) by (simp add: pos_less_divide_eq)
  moreover have "real_of_int (52 - int s) = 52 - real s" "real_of_int (52 - int s + 1) = 53 - real s"
    by simp_all
  ultimately have "2 powr of_int (52 - int s) \<le> x \<and> x < 2 powr of_int (52 - int s + 1)"
    by (simp only:)
  then have "\<lfloor>log 2 x\<rfloor> = 52 - int s"
    using assms(1) by (simp add: floor_log_eq_powr_iff)
  then have k: "\<lfloor>log 2 \<bar>x\<bar>\<rfloor> - 52 = - int s" using assms(1) by simp
  have p: "(2::real) powr of_int (- int s) = 1 / 2 ^ s"
    by (simp add: powr_minus powr_realpow divide_simps)
  show ?thesis
    using assms(1) unfolding round_double_def Let_def k p by (simp add: sgn_if)
qed

lemma round_double_1: "round_double 1 = 1"
  using round_double_eval [of 1 52] round_half_even_int [of "2 ^ 52"] by simp


lemma round_half_even_ge: "of_int n \<le> r \<Longrightarrow> n \<le> round_half_even r"
proof -
  assume "of_int n \<le> r"
  then have "n \<le> \<lfloor>r\<rfloor>" by (simp add: le_floor_iff)
  then show ?thesis by (auto simp: round_half_even_def Let_def)
qed

lemma round_half_even_le: "r \<le> of_int n \<Longrightarrow> round_half_even r \<le> n"
proof -
  assume a: "r \<le> of_int n"
  show ?thesis
  proof (cases "r = of_int n")
    case True
    then show ?thesis by (simp add: round_half_even_int)
  next
    case False
    with a have "r < of_int n" by simp
    then have "\<lfloor>r\<rfloor> < n" by (simp add: floor_less_iff)
    then show ?thesis by (auto simp: round_half_even_def Let_def)
  qed
qed

lemma round_double_pos_form:
  assumes "0 < x"
  shows "\<exists>k m. round_double x = of_int m * 2 powr of_int (k - 52) \<and> 2 ^ 52 \<le> m \<and> m < 2 ^ 53"
proof -
  define k where "k = \<lfloor>log 2 \<bar>x\<bar>\<rfloor>"
  define p where "p = (2::real) powr of_int (k - 52)"
  define m where "m = round_half_even (\<bar>x\<bar> / p)"
  have p0: "0 < p" by (simp add: p_def)
  have ax: "\<bar>x\<bar> = x" using assms by simp
  have "2 powr of_int k \<le> x \<and> x < 2 powr of_int (k + 1)"
    using assms floor_log_eq_powr_iff [of x 2 k] by (simp add: k_def)
  moreover have "2 powr of_int k = 2 ^ 52 * p" "2 powr of_int (k + 1) = 2 ^ 53 * p"
    by (simp_all add: p_def powr_diff powr_add)
  ultimately have "2 ^ 52 * p \<le> x" "x < 2 ^ 53 * p" by simp_all
  then have y: "2 ^ 52 \<le> x / p" "x / p \<le> 2 ^ 53"
    using p0 by (simp_all add: pos_le_divide_eq pos_divide_le_eq)
  have "of_int (2 ^ 52) \<le> x / p" "x / p \<le> of_int (2 ^ 53)" using y by simp_all
  then have m: "2 ^ 52 \<le> m" "m \<le> 2 ^ 53"
    unfolding m_def ax by (simp_all only: round_half_even_ge round_half_even_le)
  have rd: "round_double x = of_int m * p"
    using assms by (simp add: round_double_def Let_def k_def p_def m_def)
  show ?thesis
  proof (cases "m = 2 ^ 53")
    case False
    with m have "m < 2 ^ 53" by simp
    with rd m show ?thesis unfolding p_def by blast
  next
    case True
    have "round_double x = of_int (2 ^ 52) * 2 powr of_int ((k + 1) - 52)"
      unfolding rd True p_def
      by (simp add: powr_diff powr_add)
    then show ?thesis by (intro exI [of _ "k + 1"] exI [of _ "2 ^ 52"]) simp
  qed
qed

lemma real_of_int_bounds:
  assumes "2 ^ 52 \<le> m" "m < 2 ^ 53"
  shows "(2::real) ^ 52 \<le> of_int m" "of_int m < (2::real) ^ 53"
proof -
  have "(of_int (2 ^ 52) :: real) \<le> of_int m" using assms(1) by (simp only: of_int_le_iff)
  then show "(2::real) ^ 52 \<le> of_int m" by simp
  have "(of_int m :: real) < of_int (2 ^ 53)" using assms(2) by (simp only: of_int_less_iff)
  then show "of_int m < (2::real) ^ 53" by simp
qed

lemma round_double_of_form:
  assumes "2 ^ 52 \<le> m" "m < 2 ^ 53"
  shows "round_double (of_int m * 2 powr of_int (k - 52)) = of_int m * 2 powr of_int (k - 52)"
proof -
  define p where "p = (2::real) powr of_int (k - 52)"
  define r where "r = of_int m * p"
  have p0: "0 < p" by (simp add: p_def)
  have mb: "(2::real) ^ 52 \<le> of_int m" "of_int m < (2::real) ^ 53"
    using assms by (rule real_of_int_bounds)+
  have m0: "(0::real) < of_int m" using mb(1) by (rule order.strict_trans2 [rotated]) simp
  have r0: "0 < r" using p0 m0 by (simp add: r_def)
  have b: "2 powr of_int k = 2 ^ 52 * p" "2 powr of_int (k + 1) = 2 ^ 53 * p"
    by (simp_all add: p_def powr_diff powr_add)
  have lo: "2 powr of_int k \<le> r" unfolding b r_def using p0 mb(1) by simp
  have hi: "r < 2 powr of_int (k + 1)" unfolding b r_def using p0 mb(2) by simp
  have fl: "\<lfloor>log 2 r\<rfloor> = k"
    using r0 lo hi floor_log_eq_powr_iff [of r 2 k] by simp
  have ar: "\<bar>r\<bar> = r" "sgn r = 1" "r \<noteq> 0" using r0 by simp_all
  have q: "r / p = of_int m" using p0 by (simp add: r_def)
  have "round_double r = sgn r * (of_int (round_half_even (\<bar>r\<bar> / 2 powr of_int (\<lfloor>log 2 \<bar>r\<bar>\<rfloor> - 52)))
                                   * 2 powr of_int (\<lfloor>log 2 \<bar>r\<bar>\<rfloor> - 52))"
    using ar(3) by (simp add: round_double_def Let_def)
  also have "\<dots> = of_int (round_half_even (r / p)) * p"
    unfolding ar fl p_def [symmetric] by simp
  also have "\<dots> = of_int m * p" by (simp only: q round_half_even_int)
  also have "\<dots> = r" by (simp only: r_def)
  finally show ?thesis unfolding r_def p_def .
qed

lemma round_double_idem: "round_double (round_double x) = round_double x"
proof -
  have pos: "round_double (round_double y) = round_double y" if "0 < y" for y
  proof -
    from round_double_pos_form [OF that] obtain k m where
      "round_double y = of_int m * 2 powr of_int (k - 52)" "2 ^ 52 \<le> m" "m < 2 ^ 53" by blast
    then show ?thesis by (simp only: round_double_of_form)
  qed
  consider "x = 0" | "0 < x" | "x < 0" by linarith
  then show ?thesis
  proof cases
    case 1
    then show ?thesis by (simp add: round_double_0)
  next
    case 2
    then show ?thesis by (rule pos)
  next
    case 3
    then have "0 < - x" by simp
    from pos [OF this] show ?thesis by (simp add: round_double_minus)
  qed
qed

lemma is_double_round: "is_double (round_double x)"
  by (simp add: is_double_def round_double_idem)

lemma is_double_0: "is_double 0"
  by (simp add: is_double_def round_double_0)

lemma is_double_minus: "is_double x \<Longrightarrow> is_double (- x)"
  by (simp add: is_double_def round_double_minus)

lemma is_double_eval:
  assumes "0 < x" "2 ^ 52 \<le> x * 2 ^ s" "x * 2 ^ s < 2 ^ 53" "x * 2 ^ s = of_int m"
  shows "is_double x"
proof -
  have "round_double x = of_int (round_half_even (x * 2 ^ s)) / 2 ^ s"
    using assms(1,2,3) by (rule round_double_eval)
  also have "\<dots> = of_int m / 2 ^ s" unfolding assms(4) round_half_even_int ..
  also have "\<dots> = x" unfolding assms(4) [symmetric] by simp
  finally show ?thesis unfolding is_double_def .
qed
section \<open>Properties of the geo kernel\<close>

lemma py_mod_range:
  assumes "0 < y"
  shows "\<exists>r. py_mod x y = Inr r \<and> 0 \<le> r \<and> r < y"
proof -
  let ?q = "of_int \<lfloor>x / y\<rfloor> :: real"
  from assms have "?q * y \<le> x" by (rule floor_divide_lower)
  moreover from assms have "x < (?q + 1) * y" by (rule floor_divide_upper)
  ultimately have "0 \<le> x - y * ?q \<and> x - y * ?q < y"
    by (simp add: algebra_simps)
  with assms show ?thesis by (simp add: py_mod_def)
qed








lemma fmul_0_right: "fmul x 0 = 0"
  by (simp add: fmul_def round_double_0)


lemma math_asin_out_of_domain: "1 < r \<Longrightarrow> math_asin L r = Inl ValueError"
  by (simp add: math_asin_def)




section \<open>Properties of the route planner\<close>

lemma make_waypoint_ok:
  assumes "1 \<le> n" "0 \<le> i"
  shows "make_waypoint slat slng elat elng n i = Inr (interpolate slat slng elat elng n i)"
proof -
  have "0 \<le> round_double (of_int i / of_int n)"
    using assms by (intro round_double_nonneg) simp
  then have "0 \<le> fmul (round_double (of_int i / of_int n)) 60"
    unfolding fmul_def by (intro round_double_nonneg) simp
  then show ?thesis
    using assms by (simp add: make_waypoint_def py_truediv_def py_int_def interpolate_def)
qed

lemma waypoints_loop_ok:
  assumes "1 \<le> n" "\<forall>i \<in> set js. 0 \<le> i"
  shows "waypoints_loop slat slng elat elng n js acc =
         Inr (acc @ map (interpolate slat slng elat elng n) js)"
  using assms(2)
proof (induction js arbitrary: acc)
  case Nil
  then show ?case by simp
next
  case (Cons j js)
  then show ?case using assms(1) by (simp add: make_waypoint_ok)
qed

lemma generate_waypoints_closed:
  assumes "1 \<le> n"
  shows "generate_waypoints slat slng elat elng n =
         Inr (map (interpolate slat slng elat elng n) (map int [0 ..< nat n + 1]))"
proof -
  have "nat (n + 1) = nat n + 1" using assms by simp
  then show ?thesis
    using assms by (simp add: generate_waypoints_def py_range_def waypoints_loop_ok)
qed

lemma first_waypoint: "is_double s \<Longrightarrow> fadd s (fmul d (round_double 0)) = s"
  by (simp add: round_double_0 fmul_0_right fadd_def is_double_def)

lemma rounding_chain_lin:
  fixes S B D E1 E2 P Q R :: real
  assumes "0 \<le> S" "B \<le> S" "E1 \<le> P" "P \<le> Q" "Q \<le> S" "D \<le> B + E1" "E2 \<le> R"
    and "D \<le> 2 * S \<Longrightarrow> R \<le> 2 * Q" and "0 \<le> Q"
  shows "E2 + E1 \<le> 4 * Q"
proof -
  have "D \<le> 2 * S" using assms(1-6) by linarith
  then have "R \<le> 2 * Q" by (rule assms(8))
  then show ?thesis using assms(3,4,7,9) by linarith
qed

lemma rounding_chain:
  fixes A B C D E1 E2 :: real
  assumes "0 \<le> A" "0 \<le> B" "0 \<le> C" "C \<le> A + B"
    and "E1 \<le> C / 2 ^ 53" "D \<le> B + E1" "E2 \<le> D / 2 ^ 53"
  shows "E2 + E1 \<le> (A + B) / 2 ^ 51"
proof -
  define u :: real where "u = 1 / 2 ^ 53"
  define S where "S = A + B"
  define P where "P = C * u"
  define Q where "Q = S * u"
  define R where "R = D * u"
  have u: "0 \<le> u" "u \<le> 1" by (simp_all add: u_def)
  have s: "0 \<le> S" "B \<le> S" using assms(1,2) by (simp_all add: S_def)
  have e1: "E1 \<le> P" using assms(5) by (simp add: u_def P_def)
  have e2: "E2 \<le> R" using assms(7) by (simp add: u_def R_def)
  have pq: "P \<le> Q" unfolding P_def Q_def S_def using assms(4) u(1) by (rule mult_right_mono)
  have "S * u \<le> S * 1" using u(2) s(1) by (rule mult_left_mono)
  then have qs: "Q \<le> S" by (simp add: Q_def)
  have r: "R \<le> 2 * Q" if "D \<le> 2 * S"
  proof -
    have "D * u \<le> (2 * S) * u" using that u(1) by (rule mult_right_mono)
    then show ?thesis by (simp add: R_def Q_def)
  qed
  have "E2 + E1 \<le> 4 * Q"
    using s e1 pq qs assms(6) e2 r
  proof (rule rounding_chain_lin)
    show "0 \<le> Q" unfolding Q_def using s(1) u(1) by (rule mult_nonneg_nonneg)
  qed
  also have "\<dots> = (A + B) / 2 ^ 51" by (simp add: Q_def S_def u_def)
  finally show ?thesis .
qed

lemma last_waypoint_close:
  "\<bar>fadd s (fmul (fsub e s) (round_double 1)) - e\<bar> \<le> (\<bar>s\<bar> + \<bar>e\<bar>) / 2 ^ 51"
proof -
  define d where "d = fsub e s"
  define r where "r = fadd s d"
  have "fmul d (round_double 1) = d"
    by (simp add: round_double_1 fmul_def d_def fsub_def round_double_idem)
  then have r: "fadd s (fmul (fsub e s) (round_double 1)) = r"
    by (simp add: r_def d_def)
  have e1: "\<bar>d - (e - s)\<bar> \<le> \<bar>e - s\<bar> / 2 ^ 53"
    unfolding d_def fsub_def by (rule round_double_error)
  have e2: "\<bar>r - (s + d)\<bar> \<le> \<bar>s + d\<bar> / 2 ^ 53"
    unfolding r_def fadd_def by (rule round_double_error)
  have a1: "\<bar>e - s\<bar> \<le> \<bar>s\<bar> + \<bar>e\<bar>" by simp
  have "s + d = e + (d - (e - s))" by simp
  then have a2: "\<bar>s + d\<bar> \<le> \<bar>e\<bar> + \<bar>d - (e - s)\<bar>" by (simp only: abs_triangle_ineq)
  have "r - e = (r - (s + d)) + (d - (e - s))" by simp
  then have "\<bar>r - e\<bar> \<le> \<bar>r - (s + d)\<bar> + \<bar>d - (e - s)\<bar>" by (simp only: abs_triangle_ineq)
  also have "\<dots> \<le> (\<bar>s\<bar> + \<bar>e\<bar>) / 2 ^ 51"
    by (rule rounding_chain [OF abs_ge_zero abs_ge_zero abs_ge_zero a1 e1 a2 e2])
  finally show ?thesis unfolding r .
qed

text \<open>
  Claim C1, as the code has it.  For every \<open>num_points \<ge> 1\<close> and start coordinates that
  are doubles, \<open>generate_waypoints\<close> returns exactly \<open>num_points + 1\<close> waypoints, the
  linear interpolation of latitude and longitude in double arithmetic: the sequence
  fields are 0, 1, ..., \<open>num_points\<close>, the estimated time of waypoint \<open>i\<close> is
  \<open>floor((i / num_points) * 60)\<close>, waypoint 0 is the start, and waypoint \<open>num_points\<close> is
  the end up to rounding: it differs from the end by at most
  \<open>(|start| + |end|) / 2 ^ 51\<close> in each coordinate.
\<close>

theorem generate_waypoints_spec:
  assumes "1 \<le> num_points" and "is_double start_lat" and "is_double start_lng"
  shows "\<exists>ws. generate_waypoints start_lat start_lng end_lat end_lng num_points = Inr ws
           \<and> length ws = nat num_points + 1
           \<and> (\<forall>i \<le> nat num_points.
                 wp_sequence (ws ! i) = int i
               \<and> wp_latitude (ws ! i)
                   = fadd start_lat (fmul (fsub end_lat start_lat)
                                          (round_double (real i / of_int num_points)))
               \<and> wp_longitude (ws ! i)
                   = fadd start_lng (fmul (fsub end_lng start_lng)
                                          (round_double (real i / of_int num_points)))
               \<and> wp_estimated_time (ws ! i)
                   = \<lfloor>fmul (round_double (real i / of_int num_points)) 60\<rfloor>)
           \<and> wp_latitude (ws ! 0) = start_lat \<and> wp_longitude (ws ! 0) = start_lng
           \<and> \<bar>wp_latitude (ws ! nat num_points) - end_lat\<bar> \<le> (\<bar>start_lat\<bar> + \<bar>end_lat\<bar>) / 2 ^ 51
           \<and> \<bar>wp_longitude (ws ! nat num_points) - end_lng\<bar> \<le> (\<bar>start_lng\<bar> + \<bar>end_lng\<bar>) / 2 ^ 51"
proof -
  define m where "m = nat num_points + 1"
  define f where "f = interpolate start_lat start_lng end_lat end_lng num_points"
  define ws where "ws = map f (map int [0 ..< m])"
  have nth: "ws ! i = f (int i)" if "i \<le> nat num_points" for i
    using that by (simp add: ws_def m_def del: upt_Suc)
  have gen: "generate_waypoints start_lat start_lng end_lat end_lng num_points = Inr ws"
    unfolding ws_def m_def f_def using assms(1) by (rule generate_waypoints_closed)
  have len: "length ws = nat num_points + 1" by (simp add: ws_def m_def)
  have each: "\<forall>i \<le> nat num_points.
                 wp_sequence (ws ! i) = int i
               \<and> wp_latitude (ws ! i)
                   = fadd start_lat (fmul (fsub end_lat start_lat)
                                          (round_double (real i / of_int num_points)))
               \<and> wp_longitude (ws ! i)
                   = fadd start_lng (fmul (fsub end_lng start_lng)
                                          (round_double (real i / of_int num_points)))
               \<and> wp_estimated_time (ws ! i)
                   = \<lfloor>fmul (round_double (real i / of_int num_points)) 60\<rfloor>"
    by (simp add: nth f_def interpolate_def)
  have first: "wp_latitude (ws ! 0) = start_lat \<and> wp_longitude (ws ! 0) = start_lng"
    using assms(2,3) by (simp add: nth f_def interpolate_def first_waypoint)
  have one: "real_of_int (int (nat num_points)) / real_of_int num_points = 1"
    using assms(1) by simp
  have last: "\<bar>wp_latitude (ws ! nat num_points) - end_lat\<bar> \<le> (\<bar>start_lat\<bar> + \<bar>end_lat\<bar>) / 2 ^ 51
           \<and> \<bar>wp_longitude (ws ! nat num_points) - end_lng\<bar> \<le> (\<bar>start_lng\<bar> + \<bar>end_lng\<bar>) / 2 ^ 51"
    unfolding nth [OF order_refl] f_def interpolate_def one
    using last_waypoint_close [of start_lat end_lat] last_waypoint_close [of start_lng end_lng]
    by simp
  from gen len each first last show ?thesis by blast
qed

lemma is_double_10: "is_double 10"
  by (rule is_double_eval [of 10 49 "10 * 2 ^ 49"]) simp_all

lemma is_double_100: "is_double 100"
  by (rule is_double_eval [of 100 46 "100 * 2 ^ 46"]) simp_all

theorem generate_waypoints_spec_witness:
  "\<exists>ws. generate_waypoints 10 100 12 104 2 = Inr ws \<and> length ws = 3
      \<and> wp_latitude (ws ! 0) = 10 \<and> wp_longitude (ws ! 0) = 100
      \<and> wp_sequence (ws ! 1) = 1
      \<and> \<bar>wp_latitude (ws ! 2) - 12\<bar> \<le> 22 / 2 ^ 51
      \<and> \<bar>wp_longitude (ws ! 2) - 104\<bar> \<le> 204 / 2 ^ 51"
proof -
  have h: "(1::int) \<le> 2" by simp
  from generate_waypoints_spec [OF h is_double_10 is_double_100, of 12 104]
  obtain ws where ws: "generate_waypoints 10 100 12 104 2 = Inr ws" "length ws = nat 2 + 1"
    and each: "\<forall>i \<le> nat 2. wp_sequence (ws ! i) = int i"
    and first: "wp_latitude (ws ! 0) = 10" "wp_longitude (ws ! 0) = 100"
    and last: "\<bar>wp_latitude (ws ! nat 2) - 12\<bar> \<le> (\<bar>10\<bar> + \<bar>12\<bar>) / 2 ^ 51"
              "\<bar>wp_longitude (ws ! nat 2) - 104\<bar> \<le> (\<bar>100\<bar> + \<bar>104\<bar>) / 2 ^ 51"
    by blast
  from each have "(1::nat) \<le> nat 2 \<longrightarrow> wp_sequence (ws ! 1) = int 1" by blast
  then have s1: "wp_sequence (ws ! 1) = 1" by simp
  have n2: "nat 2 = (2::nat)" by simp
  from last have l: "\<bar>wp_latitude (ws ! 2) - 12\<bar> \<le> 22 / 2 ^ 51"
       "\<bar>wp_longitude (ws ! 2) - 104\<bar> \<le> 204 / 2 ^ 51"
    unfolding n2 by simp_all
  from ws(2) have "length ws = 3" by simp
  with ws(1) first s1 l show ?thesis by blast
qed

lemma round_double_neg_eval:
  assumes "0 < x" "2 ^ 52 \<le> x * 2 ^ s" "x * 2 ^ s < 2 ^ 53"
  shows "round_double (- x) = - (of_int (round_half_even (x * 2 ^ s)) / 2 ^ s)"
  unfolding round_double_minus using assms by (simp only: round_double_eval)

lemma v_diff: "fsub v_end v_start = - (6443455220328624 / 2 ^ 46)"
proof -
  have d: "v_end - v_start = - (12886910440657249 / 2 ^ 47)"
    by (simp add: v_end_def v_start_def)
  have t: "(12886910440657249 / 2 ^ 47 :: real) * 2 ^ 46 = of_int 6443455220328624 + 1 / 2"
    by simp
  have "round_double (- (12886910440657249 / 2 ^ 47))
          = - (of_int (round_half_even ((12886910440657249 / 2 ^ 47) * 2 ^ 46)) / 2 ^ 46)"
    by (rule round_double_neg_eval) simp_all
  also have "\<dots> = - (6443455220328624 / 2 ^ 46)"
    unfolding t round_half_even_tie by simp
  finally show ?thesis unfolding fsub_def d .
qed

lemma v_last: "fadd v_start (fmul (fsub v_end v_start) (round_double 1)) = v_end + 1 / 2 ^ 47"
proof -
  have m: "fmul (fsub v_end v_start) (round_double 1) = fsub v_end v_start"
    by (simp add: round_double_1 fmul_def fsub_def round_double_idem)
  have s: "v_start + - (6443455220328624 / 2 ^ 46) = - (6204774573177149 / 2 ^ 47)"
    by (simp add: v_start_def)
  have t: "(6204774573177149 / 2 ^ 47 :: real) * 2 ^ 47 = of_int 6204774573177149" by simp
  have "fadd v_start (fmul (fsub v_end v_start) (round_double 1))
          = fadd v_start (fsub v_end v_start)" by (simp only: m)
  also have "\<dots> = round_double (v_start + - (6443455220328624 / 2 ^ 46))"
    by (simp only: fadd_def v_diff)
  also have "\<dots> = round_double (- (6204774573177149 / 2 ^ 47))" by (simp only: s)
  also have "\<dots> = - (of_int (round_half_even ((6204774573177149 / 2 ^ 47) * 2 ^ 47)) / 2 ^ 47)"
    by (rule round_double_neg_eval) simp_all
  also have "\<dots> = - (6204774573177149 / 2 ^ 47)"
    unfolding t round_half_even_int by simp
  also have "\<dots> = v_end + 1 / 2 ^ 47" by (simp add: v_end_def)
  finally show ?thesis .
qed

lemma v_is_double: "is_double v_start" "is_double v_end"
proof -
  show "is_double v_start"
    unfolding v_start_def
    by (rule is_double_eval [of _ 47 6682135867480099]) simp_all
  have "is_double (3102387286588575 / 2 ^ 46)"
    by (rule is_double_eval [of _ 47 6204774573177150]) simp_all
  then show "is_double v_end" unfolding v_end_def by (rule is_double_minus)
qed

lemma v_nearest: "round_double 47.479431 = v_start" "round_double (- 44.087575) = v_end"
proof -
  have f1: "\<lfloor>47.479431 * 2 ^ 47 :: real\<rfloor> = 6682135867480099"
    by (intro floor_unique) simp_all
  have "round_double 47.479431 = of_int (round_half_even (47.479431 * 2 ^ 47)) / 2 ^ 47"
    by (rule round_double_eval) simp_all
  also have "round_half_even (47.479431 * 2 ^ 47) = 6682135867480099"
    unfolding round_half_even_def Let_def f1 by simp
  finally show "round_double 47.479431 = v_start" by (simp add: v_start_def)
  have f2: "\<lfloor>44.087575 * 2 ^ 47 :: real\<rfloor> = 6204774573177149"
    by (intro floor_unique) simp_all
  have "round_double (- 44.087575) = - (of_int (round_half_even (44.087575 * 2 ^ 47)) / 2 ^ 47)"
    by (rule round_double_neg_eval) simp_all
  also have "round_half_even (44.087575 * 2 ^ 47) = 6204774573177150"
    unfolding round_half_even_def Let_def f2 by simp
  finally show "round_double (- 44.087575) = v_end" by (simp add: v_end_def)
qed

text \<open>
  The claim C1 as stated (waypoint \<open>num_points\<close> equals the end) fails for one interval from
  latitude 47.479431 to latitude -44.087575: the last waypoint lies one unit in the last
  place above the end.
\<close>

theorem generate_waypoints_end_counterexample:
  "round_double 47.479431 = v_start \<and> round_double (- 44.087575) = v_end
   \<and> length (projr (generate_waypoints v_start 0 v_end 0 1)) = 2
   \<and> wp_latitude (projr (generate_waypoints v_start 0 v_end 0 1) ! 1) = v_end + 1 / 2 ^ 47
   \<and> wp_latitude (projr (generate_waypoints v_start 0 v_end 0 1) ! 1) \<noteq> v_end"
proof -
  have g: "generate_waypoints v_start 0 v_end 0 1
             = Inr (map (interpolate v_start 0 v_end 0 1) (map int [0 ..< nat 1 + 1]))"
    by (rule generate_waypoints_closed) simp
  have l: "wp_latitude (projr (generate_waypoints v_start 0 v_end 0 1) ! 1) = v_end + 1 / 2 ^ 47"
    unfolding g by (simp add: interpolate_def v_last)
  have "length (projr (generate_waypoints v_start 0 v_end 0 1)) = 2" unfolding g by simp
  with l v_nearest show ?thesis by simp
qed

text \<open>
  Claim C6, as the code has it.  With \<open>num_points = 0\<close> the first division
  \<open>i / num_points\<close> raises \<open>ZeroDivisionError\<close>: no validation takes place, and no
  validation error is raised.
\<close>

theorem generate_waypoints_zero:
  "generate_waypoints start_lat start_lng end_lat end_lng 0 = Inl ZeroDivisionError"
  by (simp add: generate_waypoints_def py_range_def make_waypoint_def py_truediv_def)

text \<open>
  The claim C6 as stated (a validation error for \<open>num_points = 0\<close>) fails at the request
  from (10, 100) to (12, 104).
\<close>

theorem generate_waypoints_zero_counterexample:
  "generate_waypoints 10 100 12 104 0 \<noteq> Inl ValidationError"
  by (simp add: generate_waypoints_def py_range_def make_waypoint_def py_truediv_def)
section \<open>Properties of the connection manager\<close>

lemma broadcast_loop_eq:
  "broadcast_loop conns msg w = (Inr (), w\<lparr>sent := sent w @ deliveries w conns msg\<rparr>)"
proof (induction conns arbitrary: w)
  case Nil
  then show ?case by (simp add: deliveries_def)
next
  case (Cons c cs)
  show ?case
  proof (cases "c \<in> closed w")
    case True
    then show ?thesis by (simp add: send_json_def Cons.IH deliveries_def)
  next
    case False
    then show ?thesis by (simp add: send_json_def Cons.IH deliveries_def)
  qed
qed

lemma broadcast_eq:
  "broadcast order_id msg w =
     (Inr (), w\<lparr>published := published w @ [(order_id, msg)],
                sent := sent w @ deliveries w (subscribers w order_id) msg\<rparr>)"
  by (simp add: broadcast_def Let_def subscribers_def broadcast_loop_eq deliveries_def
           split: option.splits)

text \<open>
  Claim C4.  For every order id and message, \<open>broadcast\<close> returns without raising and
  delivers the message to every connection registered for the order at the call whose
  \<open>send_json\<close> succeeds: a failing connection is skipped and the remaining ones still
  receive the message; with no registered connection nothing is sent.  The registry and
  the tables are left as they were.
\<close>

theorem broadcast_best_effort:
  "\<exists>w'. broadcast order_id msg w = (Inr (), w')
      \<and> sent w' = sent w @ map (\<lambda>c. (c, msg)) (filter (\<lambda>c. c \<notin> closed w) (subscribers w order_id))
      \<and> (\<forall>c \<in> set (subscribers w order_id). c \<notin> closed w \<longrightarrow> (c, msg) \<in> set (sent w'))
      \<and> (subscribers w order_id = [] \<longrightarrow> sent w' = sent w)
      \<and> active_connections w' = active_connections w
      \<and> db_routes w' = db_routes w \<and> db_tracking w' = db_tracking w"
  by (auto simp add: broadcast_eq deliveries_def)

theorem broadcast_best_effort_witness:
  "\<exists>w'. broadcast 7 example_message example_world = (Inr (), w')
      \<and> sent w' = [(1, example_message), (3, example_message)]
      \<and> (1, example_message) \<in> set (sent w') \<and> (3, example_message) \<in> set (sent w')
      \<and> active_connections w' = active_connections example_world"
proof -
  from broadcast_best_effort [of 7 example_message example_world]
  obtain w' where b: "broadcast 7 example_message example_world = (Inr (), w')"
    and s: "sent w' = sent example_world @ map (\<lambda>c. (c, example_message))
               (filter (\<lambda>c. c \<notin> closed example_world) (subscribers example_world 7))"
    and a: "active_connections w' = active_connections example_world"
    by blast
  have "sent w' = [(1, example_message), (3, example_message)]"
    unfolding s by (simp add: example_world_def empty_world_def subscribers_def)
  with b a show ?thesis by simp
qed

lemma disconnect_unknown_order:
  "active_connections w order_id = None \<Longrightarrow> disconnect websocket order_id w = Inr w"
  by (simp add: disconnect_def)

lemma disconnect_absent_raises:
  "active_connections w order_id = Some conns \<Longrightarrow> websocket \<notin> set conns \<Longrightarrow>
   disconnect websocket order_id w = Inl ValueError"
  by (simp add: disconnect_def list_remove_def)

text \<open>
  Claim C5 on the code.  A websocket connects for order 42 and disconnects: the key 42
  stays in the dict with an empty list.  A second \<open>disconnect\<close> of the same websocket
  then raises \<open>ValueError\<close> from \<open>list.remove\<close>, where the claim says it is a no-op.
\<close>

theorem disconnect_twice_raises:
  "disconnect 1 42 (connect 1 42 empty_world)
     = Inr (empty_world\<lparr>active_connections := [42 \<mapsto> []]\<rparr>)
   \<and> disconnect 1 42 (empty_world\<lparr>active_connections := [42 \<mapsto> []]\<rparr>) = Inl ValueError"
  by (simp add: disconnect_def connect_def empty_world_def list_remove_def Let_def)
section \<open>Properties of the movement simulator\<close>

lemma db_commit_ok:
  assumes "commit_outcomes w = [] \<or> hd (commit_outcomes w)"
  shows "db_commit [TrackingRow t] w =
         (Inr (), w\<lparr>db_tracking := db_tracking w @ [t], commit_outcomes := tl (commit_outcomes w)\<rparr>)"
  using assms by (cases "commit_outcomes w") (simp_all add: db_commit_def)

lemma simulate_loop_eq:
  assumes "\<forall>b \<in> set (take (length wps) (commit_outcomes w)). b"
  shows "simulate_loop oid did n i (100 - real i / 2) wps w =
     (Inr (), w\<lparr>db_tracking := db_tracking w @ map (step_tracking oid did n) (enumerate i wps),
                commit_outcomes := drop (length wps) (commit_outcomes w),
                sent := sent w @ concat (map (\<lambda>p. deliveries w (subscribers w oid) (step_message oid did n p))
                                             (enumerate i wps)),
                published := published w @ map (\<lambda>p. (oid, step_message oid did n p)) (enumerate i wps)\<rparr>)"
  using assms
proof (induction wps arbitrary: w i)
  case Nil
  then show ?case by simp
next
  case (Cons wp wps)
  let ?t = "sim_tracking oid did n i (100 - real i / 2) wp"
  let ?m = "sim_message oid did n i (100 - real i / 2) wp"
  let ?w1 = "w\<lparr>db_tracking := db_tracking w @ [?t], commit_outcomes := tl (commit_outcomes w)\<rparr>"
  let ?w2 = "?w1\<lparr>published := published ?w1 @ [(oid, ?m)],
                  sent := sent ?w1 @ deliveries ?w1 (subscribers ?w1 oid) ?m\<rparr>"
  have ok: "commit_outcomes w = [] \<or> hd (commit_outcomes w)"
    using Cons.prems by (cases "commit_outcomes w") simp_all
  have c: "db_commit [TrackingRow ?t] w = (Inr (), ?w1)"
    using ok by (rule db_commit_ok)
  have b: "broadcast oid ?m ?w1 = (Inr (), ?w2)" by (rule broadcast_eq)
  have rest: "\<forall>b \<in> set (take (length wps) (commit_outcomes ?w2)). b"
    using Cons.prems by (cases "commit_outcomes w") auto
  have bat: "100 - real i / 2 - 0.5 = 100 - real (i + 1) / 2" by (simp add: field_simps)
  have step: "simulate_loop oid did n i (100 - real i / 2) (wp # wps) w =
              simulate_loop oid did n (i + 1) (100 - real (i + 1) / 2) wps ?w2"
    by (simp only: simulate_loop.simps c b bat prod.case sum.case)
  have dr: "drop (length wps) (tl (commit_outcomes w)) = drop (length (wp # wps)) (commit_outcomes w)"
    by (simp add: drop_Suc)
  show ?case
    unfolding step Cons.IH[OF rest]
    by (simp add: step_tracking_def step_message_def deliveries_def subscribers_def drop_Suc)
qed

text \<open>
  Claim C2.  A run of \<open>simulate_drone_movement\<close> over \<open>n + 1\<close> waypoints, none of whose
  commits fails, returns after appending exactly \<open>n + 1\<close> tracking rows and calling
  \<open>broadcast\<close> exactly \<open>n + 1\<close> times, both in the order of the waypoints (the message of
  waypoint \<open>i\<close> carries the index \<open>i + 1\<close>); row and message \<open>i\<close> have battery
  \<open>100 - 0.5 * i\<close>, altitude \<open>50 + i mod 10\<close>, speed \<open>25 + i mod 15\<close> and status
  \<open>in_flight\<close> for \<open>i < n\<close>, \<open>landing\<close> for \<open>i = n\<close>.
\<close>

theorem simulate_drone_movement_run:
  assumes len: "length waypoints = n + 1"
    and ok: "\<forall>b \<in> set (take (n + 1) (commit_outcomes w)). b"
  shows "\<exists>w' samples events.
      simulate_drone_movement order_id drone_id waypoints w = (Inr (), w')
    \<and> db_tracking w' = db_tracking w @ samples \<and> length samples = n + 1
    \<and> published w' = published w @ events \<and> length events = n + 1
    \<and> sent w' = sent w @ concat (map (\<lambda>e. deliveries w (subscribers w order_id) (snd e)) events)
    \<and> (\<forall>i \<le> n.
           dt_order_id (samples ! i) = order_id
         \<and> dt_latitude (samples ! i) = dr_latitude (waypoints ! i)
         \<and> dt_longitude (samples ! i) = dr_longitude (waypoints ! i)
         \<and> dt_battery_level (samples ! i) = JFloat (100 - 0.5 * real i)
         \<and> dt_altitude (samples ! i) = real (50 + i mod 10)
         \<and> dt_speed (samples ! i) = real (25 + i mod 15)
         \<and> dt_status (samples ! i) = Some (if i < n then ''in_flight'' else ''landing'')
         \<and> fst (events ! i) = order_id
         \<and> m_waypoint (snd (events ! i)) = Some (int i + 1)
         \<and> m_total_waypoints (snd (events ! i)) = Some (int n + 1)
         \<and> m_latitude (snd (events ! i)) = dr_latitude (waypoints ! i)
         \<and> m_longitude (snd (events ! i)) = dr_longitude (waypoints ! i)
         \<and> m_battery_level (snd (events ! i)) = JFloat (100 - 0.5 * real i)
         \<and> m_altitude (snd (events ! i)) = real (50 + i mod 10)
         \<and> m_speed (snd (events ! i)) = real (25 + i mod 15)
         \<and> m_status (snd (events ! i)) = Some (if i < n then ''in_flight'' else ''landing''))"
proof -
  define samples where "samples = map (step_tracking order_id drone_id (n + 1)) (enumerate 0 waypoints)"
  define events where
    "events = map (\<lambda>p. (order_id, step_message order_id drone_id (n + 1) p)) (enumerate 0 waypoints)"
  define w' where
    "w' = w\<lparr>db_tracking := db_tracking w @ samples,
            commit_outcomes := drop (n + 1) (commit_outcomes w),
            sent := sent w @ concat (map (\<lambda>e. deliveries w (subscribers w order_id) (snd e)) events),
            published := published w @ events\<rparr>"
  have ok': "\<forall>b \<in> set (take (length waypoints) (commit_outcomes w)). b"
    using ok len by simp
  have "simulate_loop order_id drone_id (n + 1) 0 (100 - real 0 / 2) waypoints w = (Inr (), w')"
    unfolding simulate_loop_eq [OF ok'] w'_def samples_def events_def
    by (simp add: len comp_def)
  then have run: "simulate_drone_movement order_id drone_id waypoints w = (Inr (), w')"
    by (simp add: simulate_drone_movement_def len)
  have s_nth: "samples ! i = step_tracking order_id drone_id (n + 1) (i, waypoints ! i)"
    if "i \<le> n" for i
    using that len by (simp add: samples_def nth_enumerate_eq)
  have e_nth: "events ! i = (order_id, step_message order_id drone_id (n + 1) (i, waypoints ! i))"
    if "i \<le> n" for i
    using that len by (simp add: events_def nth_enumerate_eq)
  have each: "\<forall>i \<le> n.
           dt_order_id (samples ! i) = order_id
         \<and> dt_latitude (samples ! i) = dr_latitude (waypoints ! i)
         \<and> dt_longitude (samples ! i) = dr_longitude (waypoints ! i)
         \<and> dt_battery_level (samples ! i) = JFloat (100 - 0.5 * real i)
         \<and> dt_altitude (samples ! i) = real (50 + i mod 10)
         \<and> dt_speed (samples ! i) = real (25 + i mod 15)
         \<and> dt_status (samples ! i) = Some (if i < n then ''in_flight'' else ''landing'')
         \<and> fst (events ! i) = order_id
         \<and> m_waypoint (snd (events ! i)) = Some (int i + 1)
         \<and> m_total_waypoints (snd (events ! i)) = Some (int n + 1)
         \<and> m_latitude (snd (events ! i)) = dr_latitude (waypoints ! i)
         \<and> m_longitude (snd (events ! i)) = dr_longitude (waypoints ! i)
         \<and> m_battery_level (snd (events ! i)) = JFloat (100 - 0.5 * real i)
         \<and> m_altitude (snd (events ! i)) = real (50 + i mod 10)
         \<and> m_speed (snd (events ! i)) = real (25 + i mod 15)
         \<and> m_status (snd (events ! i)) = Some (if i < n then ''in_flight'' else ''landing'')"
    by (simp add: s_nth e_nth step_tracking_def step_message_def sim_tracking_def sim_message_def Let_def)
  have "db_tracking w' = db_tracking w @ samples" "length samples = n + 1"
       "published w' = published w @ events" "length events = n + 1"
       "sent w' = sent w @ concat (map (\<lambda>e. deliveries w (subscribers w order_id) (snd e)) events)"
    by (simp_all add: w'_def samples_def events_def len)
  with run each show ?thesis by blast
qed

theorem simulate_drone_movement_run_witness:
  "length example_route = 1 + 1
   \<and> commit_outcomes example_world = []
   \<and> (\<exists>w' samples events.
         simulate_drone_movement 7 (JInt 3) example_route example_world = (Inr (), w')
       \<and> db_tracking w' = samples \<and> length samples = 2
       \<and> published w' = events \<and> length events = 2
       \<and> dt_battery_level (samples ! 0) = JFloat 100 \<and> dt_status (samples ! 0) = Some ''in_flight''
       \<and> dt_battery_level (samples ! 1) = JFloat 99.5 \<and> dt_status (samples ! 1) = Some ''landing''
       \<and> dt_altitude (samples ! 1) = 51 \<and> dt_speed (samples ! 1) = 26
       \<and> m_waypoint (snd (events ! 1)) = Some 2)"
proof -
  have h1: "length example_route = 1 + 1" by (simp add: example_route_def)
  have h2: "\<forall>b \<in> set (take (1 + 1) (commit_outcomes example_world)). b"
    by (simp add: example_world_def empty_world_def)
  from simulate_drone_movement_run [OF h1 h2, of 7 "JInt 3"]
  obtain w' samples events where
      run: "simulate_drone_movement 7 (JInt 3) example_route example_world = (Inr (), w')"
    and s: "db_tracking w' = db_tracking example_world @ samples" "length samples = 1 + 1"
    and e: "published w' = published example_world @ events" "length events = 1 + 1"
    and each: "\<forall>i \<le> 1.
           dt_battery_level (samples ! i) = JFloat (100 - 0.5 * real i)
         \<and> dt_altitude (samples ! i) = real (50 + i mod 10)
         \<and> dt_speed (samples ! i) = real (25 + i mod 15)
         \<and> dt_status (samples ! i) = Some (if i < 1 then ''in_flight'' else ''landing'')
         \<and> m_waypoint (snd (events ! i)) = Some (int i + 1)"
    by blast
  from each have e0: "dt_battery_level (samples ! 0) = JFloat 100 \<and> dt_status (samples ! 0) = Some ''in_flight''"
    by simp
  from each have "(1::nat) \<le> 1 \<longrightarrow>
           dt_battery_level (samples ! 1) = JFloat (100 - 0.5 * real 1)
         \<and> dt_altitude (samples ! 1) = real (50 + 1 mod 10)
         \<and> dt_speed (samples ! 1) = real (25 + 1 mod 15)
         \<and> dt_status (samples ! 1) = Some (if (1::nat) < 1 then ''in_flight'' else ''landing'')
         \<and> m_waypoint (snd (events ! 1)) = Some (int 1 + 1)" by blast
  then have e1: "dt_battery_level (samples ! 1) = JFloat 99.5 \<and> dt_status (samples ! 1) = Some ''landing''
       \<and> dt_altitude (samples ! 1) = 51 \<and> dt_speed (samples ! 1) = 26
       \<and> m_waypoint (snd (events ! 1)) = Some 2" by simp
  have "db_tracking w' = samples" "published w' = events" "length samples = 2" "length events = 2"
    using s e by (simp_all add: example_world_def empty_world_def)
  moreover have "commit_outcomes example_world = []"
    by (simp add: example_world_def empty_world_def)
  ultimately show ?thesis using h1 run e0 e1 by blast
qed
section \<open>Properties of the token check and of the order lookup\<close>

lemma split_on_not_Nil: "split_on c s \<noteq> []"
  by (induction s) (auto split: list.splits)

lemma hd_split_on: "hd (split_on c s) = takeWhile (\<lambda>x. x \<noteq> c) s"
proof (induction s)
  case Nil
  then show ?case by simp
next
  case (Cons x xs)
  then show ?case
    using split_on_not_Nil [of c xs] by (cases "split_on c xs") auto
qed

lemma split_on_Bearer:
  "\<exists>rest. split_on CHR '' '' (''Bearer '' @ t)
            = ''Bearer'' # takeWhile (\<lambda>x. x \<noteq> CHR '' '') t # rest"
proof -
  obtain w ws where s: "split_on CHR '' '' t = w # ws"
    using split_on_not_Nil [of "CHR '' ''" t] by (cases "split_on CHR '' '' t") auto
  then have "w = takeWhile (\<lambda>x. x \<noteq> CHR '' '') t"
    using hd_split_on [of "CHR '' ''" t] by simp
  moreover have "split_on CHR '' '' (''Bearer '' @ t) = ''Bearer'' # w # ws"
    by (simp add: s)
  ultimately show ?thesis by blast
qed

lemma verify_token_missing:
  "verify_token svc None = Inl (HTTPException 401 ''Not authenticated'')"
  by (simp add: verify_token_def)

lemma verify_token_not_bearer:
  "\<not> startswith a ''Bearer '' \<Longrightarrow>
   verify_token svc (Some a) = Inl (HTTPException 401 ''Not authenticated'')"
  by (simp add: verify_token_def)

lemma verify_token_bearer:
  "verify_token svc (Some (''Bearer '' @ t)) =
     (case user_service svc (sent_header t) of
        Inl e \<Rightarrow> Inr JNull
      | Inr res \<Rightarrow>
          if status_code res = 200
          then (case body res of None \<Rightarrow> Inr JNull | Some j \<Rightarrow> Inr j)
          else Inr JNull)"
proof -
  obtain rest where s: "split_on CHR '' '' (''Bearer '' @ t)
            = ''Bearer'' # takeWhile (\<lambda>x. x \<noteq> CHR '' '') t # rest"
    using split_on_Bearer by blast
  have b: "startswith (''Bearer '' @ t) ''Bearer ''" by (simp add: startswith_def)
  show ?thesis
    unfolding verify_token_def option.case s list.case sent_header_def
    using b by simp
qed

lemma verify_token_accepts:
  assumes "user_service svc (sent_header t) = Inr ures" "status_code ures = 200"
    "body ures = Some user"
  shows "verify_token svc (Some (''Bearer '' @ t)) = Inr user"
  unfolding verify_token_bearer using assms by simp

lemma startswith_Bearer: "startswith a ''Bearer '' \<Longrightarrow> a = ''Bearer '' @ drop (length ''Bearer '') a"
  unfolding startswith_def by (metis append_take_drop_id)

lemma no_valid_token_cases:
  assumes "no_valid_token svc authorization"
  shows "verify_token svc authorization = Inl (HTTPException 401 ''Not authenticated'')
       \<or> (\<exists>user. verify_token svc authorization = Inr user \<and> \<not> truthy user)"
proof (cases authorization)
  case None
  then show ?thesis by (simp add: verify_token_missing)
next
  case (Some a)
  show ?thesis
  proof (cases "startswith a ''Bearer ''")
    case False
    with Some show ?thesis by (simp add: verify_token_not_bearer)
  next
    case True
    define t where "t = drop (length ''Bearer '') a"
    have a: "a = ''Bearer '' @ t" unfolding t_def using True by (rule startswith_Bearer)
    have r: "refused (user_service svc (sent_header t))"
      using assms Some True by (simp add: no_valid_token_def t_def)
    have "\<exists>user. verify_token svc (Some (''Bearer '' @ t)) = Inr user \<and> \<not> truthy user"
      unfolding verify_token_bearer using r
      by (auto simp: refused_def split: sum.splits option.splits if_splits)
    then show ?thesis unfolding Some a by blast
  qed
qed

lemma start_tracking_fetch_non_200:
  assumes "order_service svc order_id authorization = Inr res" "status_code res \<noteq> 200"
  shows "start_tracking_fetch svc order_id authorization
           = Inl (HTTPException 503 ''Order service unavailable'')"
  using assms by (simp add: start_tracking_fetch_def start_tracking_try_def)

lemma update_position_fetch_non_200:
  assumes "order_service svc order_id None = Inr res" "status_code res \<noteq> 200"
  shows "update_position_fetch svc order_id = Inl (HTTPException 503 ''Order service unavailable'')"
  using assms by (simp add: update_position_fetch_def update_position_try_def)

lemma start_tracking_fetch_error:
  "start_tracking_fetch svc order_id authorization = Inl e \<Longrightarrow>
   e = HTTPException 503 ''Order service unavailable''"
  by (auto simp: start_tracking_fetch_def split: sum.splits)

lemma update_position_fetch_error:
  "update_position_fetch svc order_id = Inl e \<Longrightarrow>
   e = HTTPException 503 ''Order service unavailable''"
  by (auto simp: update_position_fetch_def split: sum.splits)

lemma verify_token_error:
  "verify_token svc authorization = Inl e \<Longrightarrow>
   e = HTTPException 401 ''Not authenticated'' \<or> e = IndexError"
  by (auto simp: verify_token_def split: option.splits if_splits list.splits sum.splits)

lemma db_commit_error: "db_commit rows w = (Inl e, w') \<Longrightarrow> e = SQLAlchemyError"
  by (auto simp: db_commit_def split: list.splits if_splits)

lemma dict_get_error: "dict_get j k d = Inl e \<Longrightarrow> e = AttributeError"
  by (cases j) auto

lemma dict_index_error: "dict_index j k = Inl e \<Longrightarrow> e = KeyError \<or> e = TypeError"
  by (cases j) (auto split: option.splits)

lemma as_number_error: "as_number j = Inl e \<Longrightarrow> e = TypeError"
  by (cases j) auto

lemma order_number_error: "order_number j k d = Inl e \<Longrightarrow> e = AttributeError \<or> e = TypeError"
  by (auto simp: order_number_def split: sum.splits dest: dict_get_error as_number_error)

lemma order_coordinates_error:
  "order_coordinates j = Inl e \<Longrightarrow> e = AttributeError \<or> e = TypeError"
  by (auto simp: order_coordinates_def split: sum.splits dest: order_number_error)

lemma generate_waypoints_15:
  "generate_waypoints a b c d 15 = Inr (map (interpolate a b c d 15) (map int [0 ..< 16]))"
  using generate_waypoints_closed [of 15 a b c d] by simp

lemma start_tracking_initial_error:
  "start_tracking_initial oid order did a b n w = (Inl e, w') \<Longrightarrow>
   e = AttributeError \<or> e = SQLAlchemyError"
  by (auto simp: start_tracking_initial_def split: sum.splits prod.splits
           dest: dict_get_error db_commit_error)

lemma start_tracking_persist_error:
  "start_tracking_persist oid order w = (Inl e, w') \<Longrightarrow>
   e \<in> {AttributeError, TypeError, KeyError, SQLAlchemyError}"
  by (auto simp: start_tracking_persist_def generate_waypoints_15
           split: sum.splits prod.splits
           dest: order_coordinates_error dict_index_error db_commit_error start_tracking_initial_error)

lemma start_tracking_never_404:
  "fst (start_tracking svc order_id authorization w) \<noteq> Inl (HTTPException 404 detail)"
proof
  assume a: "fst (start_tracking svc order_id authorization w) = Inl (HTTPException 404 detail)"
  then obtain w' where "start_tracking svc order_id authorization w = (Inl (HTTPException 404 detail), w')"
    by (cases "start_tracking svc order_id authorization w") simp
  then show False
    by (auto simp: start_tracking_def split: sum.splits if_splits
             dest: verify_token_error start_tracking_fetch_error dict_get_error
                   start_tracking_persist_error)
qed

lemma broadcast_ok: "\<exists>w'. broadcast order_id msg w = (Inr (), w')"
  by (simp add: broadcast_eq)

lemma update_position_never_404:
  "fst (update_position svc order_id lat lng alt sp bat st w) \<noteq> Inl (HTTPException 404 detail)"
proof
  assume a: "fst (update_position svc order_id lat lng alt sp bat st w) = Inl (HTTPException 404 detail)"
  then obtain w' where "update_position svc order_id lat lng alt sp bat st w = (Inl (HTTPException 404 detail), w')"
    by (cases "update_position svc order_id lat lng alt sp bat st w") simp
  then show False
    by (auto simp: update_position_def Let_def broadcast_eq split: sum.splits prod.splits
             dest: update_position_fetch_error db_commit_error)
qed

text \<open>
  Claim C10.  In \<open>start_tracking\<close>, for a request whose token the user service accepts,
  and in \<open>update_position\<close>, whenever the order service answers the lookup with a status
  other than 200, the \<open>HTTPException(404, "Order not found")\<close> raised inside the \<open>try\<close> block
  is caught by the bare \<open>except\<close>: the request fails with 503 "Order service
  unavailable" and nothing is written.  Whatever the collaborators answer, neither
  endpoint ever fails with 404.
\<close>

theorem order_lookup_404_becomes_503:
  "(user_service svc (sent_header t) = Inr ures \<and> status_code ures = 200
      \<and> body ures = Some user \<and> truthy user
      \<and> order_service svc order_id (Some (''Bearer '' @ t)) = Inr res \<and> status_code res \<noteq> 200
    \<longrightarrow> start_tracking svc order_id (Some (''Bearer '' @ t)) w
          = (Inl (HTTPException 503 ''Order service unavailable''), w))
   \<and> (order_service svc' order_id' None = Inr res' \<and> status_code res' \<noteq> 200
    \<longrightarrow> update_position svc' order_id' latitude longitude altitude speed battery_level status w'
          = (Inl (HTTPException 503 ''Order service unavailable''), w'))
   \<and> fst (start_tracking svc2 order_id2 authorization2 w2) \<noteq> Inl (HTTPException 404 detail)
   \<and> fst (update_position svc3 order_id3 latitude3 longitude3 altitude3 speed3 battery_level3
             status3 w3) \<noteq> Inl (HTTPException 404 detail3)"
proof (intro conjI impI)
  assume a: "user_service svc (sent_header t) = Inr ures \<and> status_code ures = 200
      \<and> body ures = Some user \<and> truthy user
      \<and> order_service svc order_id (Some (''Bearer '' @ t)) = Inr res \<and> status_code res \<noteq> 200"
  then have a1: "user_service svc (sent_header t) = Inr ures" and a2: "status_code ures = 200"
    and a3: "body ures = Some user" and a4: "truthy user"
    and a5: "order_service svc order_id (Some (''Bearer '' @ t)) = Inr res"
    and a6: "status_code res \<noteq> 200"
    by blast+
  have v: "verify_token svc (Some (''Bearer '' @ t)) = Inr user"
    using a1 a2 a3 by (rule verify_token_accepts)
  have f: "start_tracking_fetch svc order_id (Some (''Bearer '' @ t))
             = Inl (HTTPException 503 ''Order service unavailable'')"
    using a5 a6 by (rule start_tracking_fetch_non_200)
  show "start_tracking svc order_id (Some (''Bearer '' @ t)) w
          = (Inl (HTTPException 503 ''Order service unavailable''), w)"
    unfolding start_tracking_def v f using a4 by simp
next
  assume a: "order_service svc' order_id' None = Inr res' \<and> status_code res' \<noteq> 200"
  then have b1: "order_service svc' order_id' None = Inr res'" and b2: "status_code res' \<noteq> 200"
    by blast+
  have f: "update_position_fetch svc' order_id'
                  = Inl (HTTPException 503 ''Order service unavailable'')"
    using b1 b2 by (rule update_position_fetch_non_200)
  show "update_position svc' order_id' latitude longitude altitude speed battery_level status w'
          = (Inl (HTTPException 503 ''Order service unavailable''), w')"
    unfolding update_position_def f by simp
next
  show "fst (start_tracking svc2 order_id2 authorization2 w2) \<noteq> Inl (HTTPException 404 detail)"
    by (rule start_tracking_never_404)
next
  show "fst (update_position svc3 order_id3 latitude3 longitude3 altitude3 speed3 battery_level3
             status3 w3) \<noteq> Inl (HTTPException 404 detail3)"
    by (rule update_position_never_404)
qed

theorem order_lookup_404_becomes_503_witness:
  "start_tracking picky_orders 7 (Some ''Bearer abc'') empty_world
        = (Inl (HTTPException 503 ''Order service unavailable''), empty_world)
   \<and> update_position picky_orders 7 10 100 50 30 None None empty_world
        = (Inl (HTTPException 503 ''Order service unavailable''), empty_world)"
proof -
  let ?user = "JObj [(''user_id'', JInt 1), (''role'', JStr ''admin'')]"
  have u: "user_service picky_orders (sent_header ''abc'') = Inr \<lparr>status_code = 200, body = Some ?user\<rparr>"
    by (simp add: picky_orders_def accepting_users_def)
  have o1: "order_service picky_orders 7 (Some (''Bearer '' @ ''abc''))
              = Inr \<lparr>status_code = 404, body = None\<rparr>"
    by (simp add: picky_orders_def)
  have o2: "order_service picky_orders 7 None = Inr \<lparr>status_code = 401, body = None\<rparr>"
    by (simp add: picky_orders_def)
  note th = order_lookup_404_becomes_503
      [of picky_orders "''abc''" "\<lparr>status_code = 200, body = Some ?user\<rparr>" ?user 7
          "\<lparr>status_code = 404, body = None\<rparr>" empty_world picky_orders 7
          "\<lparr>status_code = 401, body = None\<rparr>" 10 100 50 30 None None empty_world]
  have 1: "start_tracking picky_orders 7 (Some (''Bearer '' @ ''abc'')) empty_world
        = (Inl (HTTPException 503 ''Order service unavailable''), empty_world)"
    using th u o1 by simp
  have 2: "update_position picky_orders 7 10 100 50 30 None None empty_world
        = (Inl (HTTPException 503 ''Order service unavailable''), empty_world)"
    using th o2 by simp
  from 1 2 show ?thesis by simp
qed
section \<open>Properties of the persistence of a tracking session\<close>

lemma flush_routes:
  "flush (map (\<lambda>wp. RouteRow (f wp)) wps) w = w\<lparr>db_routes := db_routes w @ map f wps\<rparr>"
  by (induction wps arbitrary: w) simp_all

lemma planned_routes_length: "length (planned_routes order_id drone_id c) = 16"
  by (cases c) (simp add: planned_routes_def)

lemma planned_routes_sequence:
  "map dr_waypoint_sequence (planned_routes order_id drone_id c) = map int [0 ..< 16]"
  by (cases c) (simp add: planned_routes_def delivery_route_def interpolate_def comp_def)

lemma planned_routes_eq:
  "map (delivery_route oid did) (map (interpolate a b c d 15) (map int [0 ..< 16]))
     = planned_routes oid did (a, b, c, d)"
  by (simp add: planned_routes_def comp_def)

lemma db_commit_outcome:
  "db_commit rows w =
     (if commit_succeeds 0 w
      then (Inr (), flush rows (w\<lparr>commit_outcomes := drop 1 (commit_outcomes w)\<rparr>))
      else (Inl SQLAlchemyError, w\<lparr>commit_outcomes := drop 1 (commit_outcomes w)\<rparr>))"
proof (cases "commit_outcomes w")
  case Nil
  have "w\<lparr>commit_outcomes := commit_outcomes w\<rparr> = w" by simp
  then have e: "w\<lparr>commit_outcomes := []\<rparr> = w" unfolding Nil .
  show ?thesis using Nil by (simp add: db_commit_def commit_succeeds_def e)
next
  case (Cons ok rest)
  then show ?thesis by (simp add: db_commit_def commit_succeeds_def)
qed

lemma commit_succeeds_next:
  "commit_succeeds 0 (w\<lparr>commit_outcomes := drop 1 (commit_outcomes w), db_routes := rs\<rparr>)
     = commit_succeeds 1 w"
  by (simp add: commit_succeeds_def)

lemma map_of_dict_get:
  "dict_get (JObj kvs) key dflt = Inr (case map_of kvs key of None \<Rightarrow> dflt | Some v \<Rightarrow> v)"
  by simp

text \<open>
  Claim C3, as the code has it.  When \<open>start_tracking\<close> is called with a token the user
  service accepts, for an order that the order service answers with a drone and
  coordinates (doubles), it commits twice.  The first commit writes the sixteen route
  rows of the order (sequence 0, ..., 15) as a unit; when it fails, the request fails and
  nothing is written.  The second commit writes the one initial tracking point (status
  \<open>taking_off\<close>, altitude 0, speed 0); when it fails, the request fails and the sixteen
  route rows stay in the store without the initial point.  When both succeed, the store
  holds the route rows and the initial point.
\<close>

theorem start_tracking_two_commits:
  assumes user: "user_service svc (sent_header t) = Inr ures" "status_code ures = 200"
      "body ures = Some user" "truthy user"
    and order: "order_service svc order_id (Some (''Bearer '' @ t)) = Inr res"
      "status_code res = 200" "body res = Some (JObj order)"
    and drone: "map_of order ''drone_id'' = Some drone_id" "truthy drone_id"
    and coords: "order_coordinates (JObj order) = Inr (start_lat, start_lng, end_lat, end_lng)"
      "is_double start_lat" "is_double start_lng" "is_double end_lat" "is_double end_lng"
  shows "start_tracking svc order_id (Some (''Bearer '' @ t)) w =
     (if commit_succeeds 0 w
      then (if commit_succeeds 1 w
            then (Inr \<lparr>ts_message = ''Tracking started'', ts_order_id = order_id,
                       ts_drone_id = drone_id, ts_total_waypoints = 16\<rparr>,
                  w\<lparr>commit_outcomes := drop 2 (commit_outcomes w),
                     db_routes := db_routes w
                        @ planned_routes order_id drone_id (start_lat, start_lng, end_lat, end_lng),
                     db_tracking := db_tracking w
                        @ [initial_sample order_id drone_id start_lat start_lng
                             (case map_of order ''battery_level'' of
                                None \<Rightarrow> JInt 100
                              | Some b \<Rightarrow> b)]\<rparr>)
            else (Inl SQLAlchemyError,
                  w\<lparr>commit_outcomes := drop 2 (commit_outcomes w),
                     db_routes := db_routes w
                        @ planned_routes order_id drone_id (start_lat, start_lng, end_lat, end_lng)\<rparr>))
      else (Inl SQLAlchemyError, w\<lparr>commit_outcomes := drop 1 (commit_outcomes w)\<rparr>))
   \<and> length (planned_routes order_id drone_id (start_lat, start_lng, end_lat, end_lng)) = 16
   \<and> map dr_waypoint_sequence (planned_routes order_id drone_id (start_lat, start_lng, end_lat, end_lng))
       = map int [0 ..< 16]"
proof -
  let ?c = "(start_lat, start_lng, end_lat, end_lng)"
  let ?wps = "map (interpolate start_lat start_lng end_lat end_lng 15) (map int [0 ..< 16])"
  let ?rows = "map (\<lambda>wp. RouteRow (delivery_route order_id drone_id wp)) ?wps"
  let ?b = "case map_of order ''battery_level'' of None \<Rightarrow> JInt 100 | Some b \<Rightarrow> b"
  let ?w0 = "w\<lparr>commit_outcomes := drop 1 (commit_outcomes w)\<rparr>"
  let ?w1 = "w\<lparr>commit_outcomes := drop 1 (commit_outcomes w),
               db_routes := db_routes w @ planned_routes order_id drone_id ?c\<rparr>"
  have v: "verify_token svc (Some (''Bearer '' @ t)) = Inr user"
    using user(1,2,3) by (rule verify_token_accepts)
  have f: "start_tracking_fetch svc order_id (Some (''Bearer '' @ t)) = Inr (JObj order)"
    using order by (simp add: start_tracking_fetch_def start_tracking_try_def)
  have g: "dict_get (JObj order) ''drone_id'' JNull = Inr drone_id" using drone(1) by simp
  have st: "start_tracking svc order_id (Some (''Bearer '' @ t)) w
              = start_tracking_persist order_id (JObj order) w"
    unfolding start_tracking_def v f using user(4) drone by simp
  have gw: "generate_waypoints start_lat start_lng end_lat end_lng 15 = Inr ?wps"
    by (rule generate_waypoints_15)
  have di: "dict_index (JObj order) ''drone_id'' = Inr drone_id" using drone(1) by simp
  have fl: "flush ?rows ?w0 = ?w1"
    unfolding flush_routes planned_routes_eq by simp
  have len: "length ?wps = 16" by simp
  have p: "start_tracking_persist order_id (JObj order) w =
             (if commit_succeeds 0 w
              then start_tracking_initial order_id (JObj order) drone_id start_lat start_lng 16 ?w1
              else (Inl SQLAlchemyError, ?w0))"
    unfolding start_tracking_persist_def coords(1) sum.case prod.case gw di db_commit_outcome fl len
    by simp
  have d2: "drop 1 (drop 1 (commit_outcomes w)) = drop 2 (commit_outcomes w)"
    by (simp add: numeral_2_eq_2)
  have i: "start_tracking_initial order_id (JObj order) drone_id start_lat start_lng 16 ?w1 =
             (if commit_succeeds 1 w
              then (Inr \<lparr>ts_message = ''Tracking started'', ts_order_id = order_id,
                         ts_drone_id = drone_id, ts_total_waypoints = 16\<rparr>,
                    w\<lparr>commit_outcomes := drop 2 (commit_outcomes w),
                       db_routes := db_routes w @ planned_routes order_id drone_id ?c,
                       db_tracking := db_tracking w
                          @ [initial_sample order_id drone_id start_lat start_lng ?b]\<rparr>)
              else (Inl SQLAlchemyError,
                    w\<lparr>commit_outcomes := drop 2 (commit_outcomes w),
                       db_routes := db_routes w @ planned_routes order_id drone_id ?c\<rparr>))"
    unfolding start_tracking_initial_def map_of_dict_get sum.case db_commit_outcome
      commit_succeeds_next
    by (simp add: initial_sample_def numeral_2_eq_2)
  show ?thesis
    unfolding st p i
    by (simp add: planned_routes_length planned_routes_sequence del: upt_Suc)
qed

lemma is_double_12: "is_double 12"
  by (rule is_double_eval [of 12 49 "12 * 2 ^ 49"]) simp_all

lemma is_double_104: "is_double 104"
  by (rule is_double_eval [of 104 46 "104 * 2 ^ 46"]) simp_all

theorem start_tracking_two_commits_witness:
  "start_tracking order_7_service 7 (Some ''Bearer abc'') empty_world
     = (Inr \<lparr>ts_message = ''Tracking started'', ts_order_id = 7, ts_drone_id = JInt 3,
              ts_total_waypoints = 16\<rparr>,
        empty_world\<lparr>db_routes := planned_routes 7 (JInt 3) (10, 100, 12, 104),
                      db_tracking := [initial_sample 7 (JInt 3) 10 100 (JInt 100)]\<rparr>)
   \<and> length (planned_routes 7 (JInt 3) (10, 100, 12, 104)) = 16"
proof -
  let ?user = "JObj [(''user_id'', JInt 1), (''role'', JStr ''admin'')]"
  have u: "user_service order_7_service (sent_header ''abc'')
             = Inr \<lparr>status_code = 200, body = Some ?user\<rparr>"
    by (simp add: order_7_service_def accepting_users_def)
  have o: "order_service order_7_service 7 (Some (''Bearer '' @ ''abc''))
             = Inr \<lparr>status_code = 200, body = Some (JObj order_7)\<rparr>"
    by (simp add: order_7_service_def)
  have d: "map_of order_7 ''drone_id'' = Some (JInt 3)" by (simp add: order_7_def)
  have c: "order_coordinates (JObj order_7) = Inr (10, 100, 12, 104)"
    by (simp add: order_coordinates_def order_number_def order_7_def)
  have b: "map_of order_7 ''battery_level'' = None" by (simp add: order_7_def)
  have cs: "commit_succeeds 0 empty_world" "commit_succeeds 1 empty_world"
    by (simp_all add: commit_succeeds_def empty_world_def)
  have e: "empty_world\<lparr>commit_outcomes := drop 2 (commit_outcomes empty_world),
              db_routes := db_routes empty_world @ planned_routes 7 (JInt 3) (10, 100, 12, 104),
              db_tracking := db_tracking empty_world @ [initial_sample 7 (JInt 3) 10 100 (JInt 100)]\<rparr>
           = empty_world\<lparr>db_routes := planned_routes 7 (JInt 3) (10, 100, 12, 104),
                         db_tracking := [initial_sample 7 (JInt 3) 10 100 (JInt 100)]\<rparr>"
    by (simp add: empty_world_def)
  have s: "Some ''Bearer abc'' = Some (''Bearer '' @ ''abc'')" by simp
  from start_tracking_two_commits [OF u _ _ _ o _ _ d _ c is_double_10 is_double_100
      is_double_12 is_double_104, of ?user empty_world]
  show ?thesis unfolding s by (simp only: cs b e option.case if_True) simp
qed

lemma verify_bearer_abc:
  "verify_token one_order (Some ''Bearer abc'')
     = Inr (JObj [(''user_id'', JInt 1), (''role'', JStr ''admin'')])"
  by (simp add: verify_token_def one_order_def accepting_users_def startswith_def)

lemma one_order_persist:
  "start_tracking one_order 7 (Some ''Bearer abc'') w
     = start_tracking_persist 7 (JObj [(''drone_id'', JInt 3)]) w"
proof -
  have f: "start_tracking_fetch one_order 7 (Some ''Bearer abc'') = Inr (JObj [(''drone_id'', JInt 3)])"
    by (simp add: start_tracking_fetch_def start_tracking_try_def one_order_def)
  show ?thesis unfolding start_tracking_def verify_bearer_abc f by simp
qed

lemma persist_second_commit_fails:
  assumes oc: "order_coordinates order = Inr (a, b, c, d)"
    and di: "dict_index order ''drone_id'' = Inr drone_id"
    and ba: "dict_get order ''battery_level'' (JInt 100) = Inr battery"
    and co: "commit_outcomes w = [True, False]"
  shows "start_tracking_persist order_id order w
     = (Inl SQLAlchemyError,
        w\<lparr>commit_outcomes := [],
           db_routes := db_routes w @ planned_routes order_id drone_id (a, b, c, d)\<rparr>)"
proof -
  let ?wps = "map (interpolate a b c d 15) (map int [0 ..< 16])"
  let ?rows = "map (\<lambda>wp. RouteRow (delivery_route order_id drone_id wp)) ?wps"
  let ?w1 = "w\<lparr>commit_outcomes := [False],
               db_routes := db_routes w @ planned_routes order_id drone_id (a, b, c, d)\<rparr>"
  have g: "generate_waypoints a b c d 15 = Inr ?wps" by (rule generate_waypoints_15)
  have "flush ?rows (w\<lparr>commit_outcomes := [False]\<rparr>) = ?w1"
    unfolding flush_routes planned_routes_eq by simp
  then have c1: "db_commit ?rows w = (Inr (), ?w1)"
    using co by (simp add: db_commit_def)
  have c2: "start_tracking_initial order_id order drone_id a b 16 ?w1
            = (Inl SQLAlchemyError,
               w\<lparr>commit_outcomes := [],
                  db_routes := db_routes w @ planned_routes order_id drone_id (a, b, c, d)\<rparr>)"
    using ba by (simp add: start_tracking_initial_def db_commit_def)
  have l: "length ?wps = 16" by simp
  show ?thesis
    unfolding start_tracking_persist_def oc g di sum.case prod.case c1 l
    by (rule c2)
qed

lemma one_order_second_commit_fails:
  "start_tracking one_order 7 (Some ''Bearer abc'') second_commit_fails
     = (Inl SQLAlchemyError,
        second_commit_fails\<lparr>commit_outcomes := [],
           db_routes := db_routes second_commit_fails @ planned_routes 7 (JInt 3)
                        (round_double 10.762622, round_double 106.660172,
                         round_double 10.775845, round_double 106.701758)\<rparr>)"
proof -
  have oc: "order_coordinates (JObj [(''drone_id'', JInt 3)])
              = Inr (round_double 10.762622, round_double 106.660172,
                     round_double 10.775845, round_double 106.701758)"
    by (simp add: order_coordinates_def order_number_def)
  have di: "dict_index (JObj [(''drone_id'', JInt 3)]) ''drone_id'' = Inr (JInt 3)" by simp
  have ba: "dict_get (JObj [(''drone_id'', JInt 3)]) ''battery_level'' (JInt 100) = Inr (JInt 100)"
    by simp
  have co: "commit_outcomes second_commit_fails = [True, False]"
    by (simp add: second_commit_fails_def)
  show ?thesis
    unfolding one_order_persist by (rule persist_second_commit_fails [OF oc di ba co])
qed

text \<open>
  The claim C3 as stated fails when the second commit raises: the request for order 7
  ends in an error, and the store, empty before, holds the sixteen route rows without
  the initial tracking point.
\<close>

theorem start_tracking_not_atomic_counterexample:
  "fst (start_tracking one_order 7 (Some ''Bearer abc'') second_commit_fails) = Inl SQLAlchemyError
   \<and> db_routes second_commit_fails = []
   \<and> length (db_routes (snd (start_tracking one_order 7 (Some ''Bearer abc'') second_commit_fails))) = 16
   \<and> db_tracking (snd (start_tracking one_order 7 (Some ''Bearer abc'') second_commit_fails)) = []"
  unfolding one_order_second_commit_fails
  by (simp add: planned_routes_length second_commit_fails_def empty_world_def)
section \<open>Properties of the guarded and the unguarded endpoints\<close>

lemma authorize_rejected:
  assumes "no_valid_token (auth svc) authorization"
  shows "authorize svc authorization allowed = Inl (HTTPException 401 ''Not authenticated'')
       \<or> authorize svc authorization allowed = Inl (HTTPException 403 ''Admin access required'')"
  using no_valid_token_cases [OF assms]
  by (auto simp: authorize_def check_role_def)

lemma start_tracking_rejected:
  assumes "no_valid_token svc authorization"
  shows "start_tracking svc order_id authorization w = (Inl (HTTPException 401 ''Not authenticated''), w)
       \<or> start_tracking svc order_id authorization w = (Inl (HTTPException 401 ''Invalid token''), w)"
  using no_valid_token_cases [OF assms]
  by (auto simp: start_tracking_def)

lemma update_position_asks_no_token:
  "update_position (svc\<lparr>user_service := u\<rparr>) order_id latitude longitude altitude speed
       battery_level status w
     = update_position svc order_id latitude longitude altitude speed battery_level status w"
  by (simp add: update_position_def update_position_fetch_def update_position_try_def)

text \<open>
  Claim C9, as the code has it.  The endpoints that call \<open>verify_token\<close>, which are
  \<open>start_tracking\<close> of the delivery service and \<open>update_drone_status\<close>,
  \<open>schedule_maintenance\<close>, \<open>complete_maintenance\<close> and \<open>resolve_alert\<close> of the drone
  service, answer a request by 401 or 403 and leave the state as it was whenever the
  Authorization header is missing or not of the form \<open>Bearer ...\<close>, or the user service,
  asked about the token, raises or does not answer 200 with a user.  (\<open>update_position\<close>,
  \<open>update_performance\<close> and \<open>log_battery_status\<close> declare no Authorization header and
  call no token check.)
\<close>

theorem guarded_endpoints_reject:
  assumes "no_valid_token (auth svc) authorization"
  shows "(\<exists>e. auth_error e \<and> start_tracking (auth svc) order_id authorization dw = (Inl e, dw))
       \<and> (\<exists>e. auth_error e \<and> update_drone_status svc drone_id status_change authorization w = (Inl e, w))
       \<and> (\<exists>e. auth_error e \<and> schedule_maintenance svc m authorization w = (Inl e, w))
       \<and> (\<exists>e. auth_error e \<and> complete_maintenance svc maintenance_id notes authorization w = (Inl e, w))
       \<and> (\<exists>e. auth_error e \<and> resolve_alert svc alert_id authorization w = (Inl e, w))"
proof -
  have a: "\<exists>e. auth_error e \<and> authorize svc authorization allowed = Inl e" for allowed
    using authorize_rejected [OF assms, of allowed] by (auto simp: auth_error_def)
  have 1: "\<exists>e. auth_error e \<and> start_tracking (auth svc) order_id authorization dw = (Inl e, dw)"
    using start_tracking_rejected [OF assms, of order_id dw] by (auto simp: auth_error_def)
  have 2: "\<exists>e. auth_error e \<and> update_drone_status svc drone_id status_change authorization w = (Inl e, w)"
    using a [of "[''admin'', ''restaurant'']"] by (auto simp: update_drone_status_def)
  have 3: "\<exists>e. auth_error e \<and> schedule_maintenance svc m authorization w = (Inl e, w)"
    using a [of "[''admin'']"] by (auto simp: schedule_maintenance_def)
  have 4: "\<exists>e. auth_error e \<and> complete_maintenance svc maintenance_id notes authorization w = (Inl e, w)"
    using a [of "[''admin'']"] by (auto simp: complete_maintenance_def)
  have 5: "\<exists>e. auth_error e \<and> resolve_alert svc alert_id authorization w = (Inl e, w)"
    using a [of "[''admin'']"] by (auto simp: resolve_alert_def)
  from 1 2 3 4 5 show ?thesis by (intro conjI)
qed

theorem guarded_endpoints_reject_witness:
  "user_service rejecting (sent_header ''stolen'') = Inr \<lparr>status_code = 401, body = None\<rparr>
   \<and> start_tracking (auth rejecting_drone_services) 7 (Some ''Bearer stolen'') empty_world
        = (Inl (HTTPException 401 ''Invalid token''), empty_world)
   \<and> update_drone_status rejecting_drone_services 3 example_status_change (Some ''Bearer stolen'')
          empty_drone_world
        = (Inl (HTTPException 403 ''Admin access required''), empty_drone_world)
   \<and> fst (schedule_maintenance rejecting_drone_services example_maintenance (Some ''Bearer stolen'')
          empty_drone_world) = Inl (HTTPException 403 ''Admin access required'')
   \<and> snd (schedule_maintenance rejecting_drone_services example_maintenance (Some ''Bearer stolen'')
          empty_drone_world) = empty_drone_world
   \<and> snd (complete_maintenance rejecting_drone_services 1 None (Some ''Bearer stolen'')
          empty_drone_world) = empty_drone_world
   \<and> snd (resolve_alert rejecting_drone_services 1 (Some ''Bearer stolen'')
          empty_drone_world) = empty_drone_world"
proof -
  have r: "user_service rejecting (sent_header ''stolen'') = Inr \<lparr>status_code = 401, body = None\<rparr>"
    by (simp add: rejecting_def)
  have h: "no_valid_token (auth rejecting_drone_services) (Some ''Bearer stolen'')"
    by (simp add: no_valid_token_def startswith_def refused_def rejecting_drone_services_def
                  rejecting_def)
  have v: "verify_token rejecting (Some ''Bearer stolen'') = Inr JNull"
    by (simp add: verify_token_def rejecting_def startswith_def)
  have s: "start_tracking (auth rejecting_drone_services) 7 (Some ''Bearer stolen'') empty_world
        = (Inl (HTTPException 401 ''Invalid token''), empty_world)"
    by (simp add: start_tracking_def rejecting_drone_services_def v)
  have u: "update_drone_status rejecting_drone_services 3 example_status_change (Some ''Bearer stolen'')
          empty_drone_world
        = (Inl (HTTPException 403 ''Admin access required''), empty_drone_world)"
    by (simp add: update_drone_status_def authorize_def check_role_def rejecting_drone_services_def v)
  have m: "fst (schedule_maintenance rejecting_drone_services example_maintenance (Some ''Bearer stolen'')
          empty_drone_world) = Inl (HTTPException 403 ''Admin access required'')"
    by (simp add: schedule_maintenance_def authorize_def check_role_def rejecting_drone_services_def v)
  from guarded_endpoints_reject [OF h, of 7 empty_world 3 example_status_change empty_drone_world
      example_maintenance 1 None 1]
  have "snd (schedule_maintenance rejecting_drone_services example_maintenance (Some ''Bearer stolen'')
          empty_drone_world) = empty_drone_world
   \<and> snd (complete_maintenance rejecting_drone_services 1 None (Some ''Bearer stolen'')
          empty_drone_world) = empty_drone_world
   \<and> snd (resolve_alert rejecting_drone_services 1 (Some ''Bearer stolen'')
          empty_drone_world) = empty_drone_world"
    by auto
  with r s u m show ?thesis by simp
qed

text \<open>
  The claim C9 as stated fails for the three endpoints it names: with a user service
  that rejects every token and a request without a token, \<open>update_position\<close> stores a
  tracking point, \<open>log_battery_status\<close> stores a battery log and an alert, and
  \<open>update_performance\<close> changes the performance row of the drone.
\<close>

theorem unguarded_endpoints_counterexample:
  "verify_token rejecting None = Inl (HTTPException 401 ''Not authenticated'')
   \<and> fst (update_position rejecting 7 10 100 50 30 None None empty_world) = Inr ''Position updated''
   \<and> db_tracking empty_world = []
   \<and> length (db_tracking (snd (update_position rejecting 7 10 100 50 30 None None empty_world))) = 1
   \<and> fst (log_battery_status 3 5 None None None None empty_drone_world) = Inr ''Battery status logged''
   \<and> length (battery_logs (snd (log_battery_status 3 5 None None None None empty_drone_world))) = 1
   \<and> length (alerts (snd (log_battery_status 3 5 None None None None empty_drone_world))) = 1
   \<and> map dp_total_deliveries
        (performance (snd (update_performance 3 1 2 10 True
                             (empty_drone_world\<lparr>performance := [drone_3_performance]\<rparr>)))) = [1]"
proof -
  have 1: "verify_token rejecting None = Inl (HTTPException 401 ''Not authenticated'')"
    by (rule verify_token_missing)
  have f: "update_position_fetch rejecting 7 = Inr (JInt 3)"
    by (simp add: update_position_fetch_def update_position_try_def rejecting_def)
  have c: "db_commit [TrackingRow t] empty_world = (Inr (), empty_world\<lparr>db_tracking := [t]\<rparr>)" for t
    by (simp add: db_commit_def empty_world_def)
  have 2: "fst (update_position rejecting 7 10 100 50 30 None None empty_world) = Inr ''Position updated''
     \<and> length (db_tracking (snd (update_position rejecting 7 10 100 50 30 None None empty_world))) = 1"
    unfolding update_position_def f Let_def sum.case c prod.case broadcast_eq
    by (simp add: empty_world_def)
  have 3: "fst (log_battery_status 3 5 None None None None empty_drone_world) = Inr ''Battery status logged''
   \<and> length (battery_logs (snd (log_battery_status 3 5 None None None None empty_drone_world))) = 1
   \<and> length (alerts (snd (log_battery_status 3 5 None None None None empty_drone_world))) = 1"
    by (simp add: log_battery_status_def drone_commit_def empty_drone_world_def)
  have 4: "map dp_total_deliveries
        (performance (snd (update_performance 3 1 2 10 True
                             (empty_drone_world\<lparr>performance := [drone_3_performance]\<rparr>)))) = [1]"
    by (simp add: update_performance_def update_success_rate_def py_truediv_def
                  drone_commit_def empty_drone_world_def drone_3_performance_def Let_def)
  have 5: "db_tracking empty_world = []" by (simp add: empty_world_def)
  from 1 2 3 4 5 show ?thesis by simp
qed

end
